theory Spec2Isabelle
  imports Complex_Main "HOL-Library.AList" "HOL-Library.Sublist"
begin

section \<open>The JEDI catalog pipeline (generate_jedi_catalog.py)\<close>

text \<open>
  A shallow embedding of \<^verbatim>\<open>generate_jedi_catalog\<close>: the flare loop, the pre-flare
  irradiance hold-over, the dimming window, the conversion to percent, the flare removal
  over all ordered pairs of emission lines, the fitting and the parameterization, and the
  rows appended to the CSV file.

  What is abstracted:
  \<^item> a point in time is an exact rational number of seconds (astropy's \<^verbatim>\<open>Time\<close>,
    pandas' \<^verbatim>\<open>Timestamp\<close> and an ISO string name the same point; the millisecond
    rounding of \<^verbatim>\<open>.iso\<close> is left out);
  \<^item> an irradiance is a value of \<open>fl\<close>: a rational, NaN or an infinity; rounding and
    the sign of zero are left out;
  \<^item> the six routines imported from other modules are parameters (the record \<open>ext\<close>);
    each may raise;
  \<^item> loading the two IDL save sets, the metadata dictionary, the progress bar, the
    creation of directories and the plots are left out: the EVE table and the GOES flare
    list are inputs, and the plot file names passed to the routines are dropped.
\<close>

subsection \<open>Values\<close>

type_synonym time = rat

datatype fl = NaN | Fin rat | PosInf | NegInf

text \<open>numpy's float64 arithmetic on these values, as far as line 267 needs it.\<close>

fun fl_sub :: "fl \<Rightarrow> fl \<Rightarrow> fl" where
  "fl_sub NaN y = NaN"
| "fl_sub x NaN = NaN"
| "fl_sub (Fin x) (Fin y) = Fin (x - y)"
| "fl_sub (Fin x) PosInf = NegInf"
| "fl_sub (Fin x) NegInf = PosInf"
| "fl_sub PosInf PosInf = NaN"
| "fl_sub PosInf y = PosInf"
| "fl_sub NegInf NegInf = NaN"
| "fl_sub NegInf y = NegInf"

fun fl_div :: "fl \<Rightarrow> fl \<Rightarrow> fl" where
  "fl_div NaN y = NaN"
| "fl_div x NaN = NaN"
| "fl_div (Fin x) (Fin y) =
     (if y = 0 then (if x = 0 then NaN else if 0 < x then PosInf else NegInf)
      else Fin (x / y))"
| "fl_div (Fin x) y = Fin 0"
| "fl_div PosInf (Fin y) = (if y < 0 then NegInf else PosInf)"
| "fl_div NegInf (Fin y) = (if y < 0 then PosInf else NegInf)"
| "fl_div x y = NaN"

fun fl_mul :: "fl \<Rightarrow> fl \<Rightarrow> fl" where
  "fl_mul NaN y = NaN"
| "fl_mul x NaN = NaN"
| "fl_mul (Fin x) (Fin y) = Fin (x * y)"
| "fl_mul (Fin x) PosInf = (if x = 0 then NaN else if 0 < x then PosInf else NegInf)"
| "fl_mul (Fin x) NegInf = (if x = 0 then NaN else if 0 < x then NegInf else PosInf)"
| "fl_mul PosInf (Fin y) = (if y = 0 then NaN else if 0 < y then PosInf else NegInf)"
| "fl_mul NegInf (Fin y) = (if y = 0 then NaN else if 0 < y then NegInf else PosInf)"
| "fl_mul PosInf PosInf = PosInf"
| "fl_mul NegInf NegInf = PosInf"
| "fl_mul x y = NegInf"

datatype py_error =
    IndexError
  | KeyError
  | TypeError
  | ValueError
  | AttributeError
  | UnboundLocalError string
  | RoutineError string

text \<open>What a field of the one-row frame \<^verbatim>\<open>jedi_row\<close> can hold.\<close>

datatype cell =
    Number fl
  | IsoString time
  | Timestamp time
  | Text string
  | Flag bool
  | PyNone

text \<open>
  \<^verbatim>\<open>bracket_time_right\<close> is either an astropy \<^verbatim>\<open>Time\<close> object or the ISO string
  of one, depending on which argument \<^verbatim>\<open>min\<close> returns.
\<close>

datatype timeval = TimeObj time | IsoStr time

fun time_of :: "timeval \<Rightarrow> time" where
  "time_of (TimeObj t) = t"
| "time_of (IsoStr t) = t"

subsection \<open>Time-indexed tables\<close>

type_synonym series = "(time \<times> fl) list"

record table =
  time_index :: "time list"
  cols :: "(string \<times> fl list) list"

definition select :: "bool list \<Rightarrow> 'a list \<Rightarrow> 'a list" where
  "select keep xs = map snd (filter fst (zip keep xs))"

text \<open>\<^verbatim>\<open>frame[a:b]\<close> on a sorted time index: both ends belong to the slice.\<close>

definition slice :: "table \<Rightarrow> time \<Rightarrow> time \<Rightarrow> table" where
  "slice tb a b =
     (let keep = map (\<lambda>t. a \<le> t \<and> t \<le> b) (time_index tb)
      in \<lparr>time_index = select keep (time_index tb),
          cols = map (\<lambda>(l, vs). (l, select keep vs)) (cols tb)\<rparr>)"

text \<open>\<^verbatim>\<open>frame[label]\<close>: the column as a series, KeyError when there is none.\<close>

definition column :: "table \<Rightarrow> string \<Rightarrow> py_error + series" where
  "column tb l =
     (case map_of (cols tb) l of None \<Rightarrow> Inl KeyError
      | Some vs \<Rightarrow> Inr (zip (time_index tb) vs))"

text \<open>\<^verbatim>\<open>.isnull().all().all()\<close>: true of a series with no sample at all.\<close>

definition all_null :: "series \<Rightarrow> bool" where
  "all_null s = list_all (\<lambda>(t, v). v = NaN) s"

text \<open>
  \<^verbatim>\<open>frame[label] = series\<close>: the values are aligned on the frame's index, a time the
  series lacks gets NaN; an existing column is replaced, a new one is added last.
\<close>

definition align :: "time list \<Rightarrow> series \<Rightarrow> fl list" where
  "align ts s = map (\<lambda>t. case map_of s t of None \<Rightarrow> NaN | Some v \<Rightarrow> v) ts"

definition set_column :: "table \<Rightarrow> string \<Rightarrow> series \<Rightarrow> table" where
  "set_column tb l s = tb\<lparr>cols := AList.update l (align (time_index tb) s) (cols tb)\<rparr>"

subsection \<open>Inputs, the imported routines and the state of the run\<close>

record config =
  threshold_time_prior_flare_minutes :: rat
  dimming_window_relative_to_flare_minutes_left :: rat
  dimming_window_relative_to_flare_minutes_right :: rat
  threshold_minimum_dimming_window_minutes :: rat
  verbose :: bool

text \<open>One entry of \<^verbatim>\<open>goes_flare_events\<close>: its three arrays have one element per flare.\<close>

record flare =
  start_time :: time
  peak_time :: time
  flare_class :: string

text \<open>
  The routines of the other modules. Each gets the light curve (a one-column frame) and
  the keyword arguments of its call, the last one being \<^verbatim>\<open>verbose\<close>.
\<close>

record ext =
  determine_preflare_irradiance :: "series \<Rightarrow> time \<Rightarrow> bool \<Rightarrow> py_error + fl"
  light_curve_peak_match_subtract ::
    "series \<Rightarrow> series \<Rightarrow> time \<Rightarrow> bool \<Rightarrow> py_error + series \<times> cell \<times> cell"
  automatic_fit_coronal_dimming_light_curve ::
    "series \<Rightarrow> rat list \<Rightarrow> bool \<Rightarrow> py_error + series \<times> cell \<times> cell"
  determine_dimming_depth :: "series \<Rightarrow> bool \<Rightarrow> py_error + cell \<times> time option"
  determine_dimming_slope ::
    "series \<Rightarrow> time \<Rightarrow> time option \<Rightarrow> bool \<Rightarrow> py_error + cell \<times> cell \<times> cell"
  determine_dimming_duration :: "series \<Rightarrow> time \<Rightarrow> bool \<Rightarrow> py_error + cell \<times> cell \<times> cell"

text \<open>The calls made to these routines, in the order they are made.\<close>

datatype call =
    PreflareCall series time bool
  | CorrectionCall series series time bool
  | FitCall series "rat list" bool
  | DepthCall series bool
  | SlopeCall series time "time option" bool
  | DurationCall series time bool

datatype csv_line = Header "string list" | Data "cell list"

text \<open>
  What lives across the iterations of the flare loop: the hold-over pre-flare irradiance
  (\<open>None\<close> is Python's \<^verbatim>\<open>None\<close>), the two window bounds (\<open>None\<close>: the local
  variable is not bound yet), the one-row frame \<^verbatim>\<open>jedi_row\<close>, the lines of the CSV
  file, the messages given to the logger and the calls made.
\<close>

record state =
  preflare_irradiance :: "fl list option"
  preflare_window_start :: "time option"
  preflare_window_end :: "time option"
  jedi_row :: "(string \<times> cell) list"
  csv :: "csv_line list"
  logger :: "string list"
  calls :: "call list"

subsection \<open>Helpers for Python's control flow\<close>

text \<open>A \<^verbatim>\<open>for\<close> loop whose body may raise: the first exception ends it.\<close>

fun for_each :: "('a \<Rightarrow> 's \<Rightarrow> py_error + 's) \<Rightarrow> 'a list \<Rightarrow> 's \<Rightarrow> py_error + 's" where
  "for_each body [] s = Inr s"
| "for_each body (x # xs) s =
     (case body x s of Inl e \<Rightarrow> Inl e | Inr s' \<Rightarrow> for_each body xs s')"

text \<open>\<^verbatim>\<open>xs[i]\<close> for \<open>i \<ge> 0\<close>.\<close>

definition get :: "'a list \<Rightarrow> nat \<Rightarrow> py_error + 'a" where
  "get xs i = (if i < length xs then Inr (xs ! i) else Inl IndexError)"

text \<open>
  \<^verbatim>\<open>logger\<close> is assigned under \<^verbatim>\<open>if verbose:\<close> only (lines 72 to 74), so a bare
  \<^verbatim>\<open>logger.info(...)\<close> reads an unbound local variable when \<^verbatim>\<open>verbose\<close> is off.
\<close>

definition info :: "config \<Rightarrow> string \<Rightarrow> state \<Rightarrow> py_error + state" where
  "info cfg msg st =
     (if verbose cfg then Inr (st\<lparr>logger := logger st @ [msg]\<rparr>)
      else Inl (UnboundLocalError ''logger''))"

text \<open>\<^verbatim>\<open>if verbose: logger.info(...)\<close>\<close>

definition info_if_verbose :: "config \<Rightarrow> string \<Rightarrow> state \<Rightarrow> state" where
  "info_if_verbose cfg msg st =
     (if verbose cfg then st\<lparr>logger := logger st @ [msg]\<rparr> else st)"

text \<open>\<^verbatim>\<open>jedi_row[name] = value\<close>, one assignment after the other.\<close>

definition set_fields :: "(string \<times> cell) list \<Rightarrow> state \<Rightarrow> state" where
  "set_fields kvs st =
     st\<lparr>jedi_row := fold (\<lambda>(k, v). AList.update k v) kvs (jedi_row st)\<rparr>"

text \<open>\<^verbatim>\<open>jedi_row.to_csv(csv_filename, header=False, mode='a')\<close>\<close>

definition to_csv :: "state \<Rightarrow> state" where
  "to_csv st = st\<lparr>csv := csv st @ [Data (map snd (jedi_row st))]\<rparr>"

subsection \<open>The columns of the catalog (lines 128 to 172)\<close>

definition channel_suffixes :: "string list" where
  "channel_suffixes =
     ['' Pre-Flare Irradiance [W/m2]'', '' Slope Start Time'', '' Slope End Time'',
      '' Slope Min [%/s]'', '' Slope Max [%/s]'', '' Slope Mean [%/s]'',
      '' Slope Uncertainty [%/s]'', '' Depth Time'', '' Depth [%]'',
      '' Depth Uncertainty [%]'', '' Duration Start Time'', '' Duration End Time'',
      '' Duration [s]'', '' Fitting Gamma'', '' Fitting Score'']"

definition pair_suffixes :: "string list" where
  "pair_suffixes =
     ['' Slope Start Time'', '' Slope End Time'', '' Slope Min [%/s]'',
      '' Slope Max [%/s]'', '' Slope Mean [%/s]'', '' Slope Uncertainty [%/s]'',
      '' Depth Time'', '' Depth [%]'', '' Depth Uncertainty [%]'',
      '' Duration Start Time'', '' Duration End Time'', '' Duration [s]'',
      '' Correction Time Shift [s]'', '' Correction Scale Factor'',
      '' Fitting Gamma'', '' Fitting Score'']"

text \<open>\<^verbatim>\<open>itertools.permutations(labels, 2)\<close>: ordered pairs of positions, in order.\<close>

definition ion_tuples :: "string list \<Rightarrow> (string \<times> string) list" where
  "ion_tuples labels =
     concat (map (\<lambda>i. map (\<lambda>j. (labels ! i, labels ! j))
                          (filter (\<lambda>j. j \<noteq> i) [0..<length labels]))
                 [0..<length labels])"

definition ion_permutations :: "string list \<Rightarrow> string list" where
  "ion_permutations labels = map (\<lambda>(a, b). a @ '' by '' @ b) (ion_tuples labels)"

text \<open>
  \<^verbatim>\<open>jedi_row.join(pd.DataFrame(columns=names))\<close>: the new columns are added with NaN in
  the one row; pandas raises ValueError when a name is there already.
\<close>

definition join :: "(string \<times> cell) list \<Rightarrow> string list \<Rightarrow> py_error + (string \<times> cell) list" where
  "join row names =
     (if list_ex (\<lambda>n. n \<in> set (map fst row)) names then Inl ValueError
      else Inr (row @ map (\<lambda>n. (n, Number NaN)) names))"

definition jedi_row_definition :: "string list \<Rightarrow> py_error + (string \<times> cell) list" where
  "jedi_row_definition labels =
     (case for_each (\<lambda>suffix row. join row (map (\<lambda>l. l @ suffix) labels)) channel_suffixes
             [(''GOES Flare Start Time'', Number NaN), (''GOES Flare Peak Time'', Number NaN),
              (''GOES Flare Class'', Number NaN), (''Pre-Flare Start Time'', Number NaN),
              (''Pre-Flare End Time'', Number NaN), (''Flare Interrupt'', Number NaN)] of
        Inl e \<Rightarrow> Inl e
      | Inr row \<Rightarrow>
          for_each (\<lambda>suffix row. join row (map (\<lambda>l. l @ suffix) (ion_permutations labels)))
            pair_suffixes row)"

subsection \<open>One flare: details and pre-flare irradiance (lines 195 to 230)\<close>

definition store_flare_details :: "config \<Rightarrow> flare \<Rightarrow> state \<Rightarrow> state" where
  "store_flare_details cfg f st =
     info_if_verbose cfg ''GOES flare details stored to JEDI row.''
       (set_fields [(''GOES Flare Start Time'', IsoString (start_time f)),
                    (''GOES Flare Peak Time'', IsoString (peak_time f)),
                    (''GOES Flare Class'', Text (flare_class f))] st)"

text \<open>The body of the loop over the emission lines, lines 212 to 218.\<close>

definition preflare_column ::
  "config \<Rightarrow> ext \<Rightarrow> flare \<Rightarrow> table \<Rightarrow> string \<Rightarrow> fl list \<times> state \<Rightarrow> py_error + fl list \<times> state" where
  "preflare_column cfg ex f eve_lines_preflare_time l acc =
     (case column eve_lines_preflare_time l of
        Inl e \<Rightarrow> Inl e
      | Inr eve_line_preflare_time \<Rightarrow>
          (case determine_preflare_irradiance ex eve_line_preflare_time (start_time f) (verbose cfg) of
             Inl e \<Rightarrow> Inl e
           | Inr v \<Rightarrow>
               Inr (fst acc @ [v],
                    (snd acc)\<lparr>calls := calls (snd acc) @
                       [PreflareCall eve_line_preflare_time (start_time f) (verbose cfg)]\<rparr>)))"

text \<open>
  Lines 226 and 227: the columns whose name contains \<^verbatim>\<open>Pre-Flare Irradiance\<close> get the
  values of the list, one each; a list of another length is a ValueError, and
  \<^verbatim>\<open>None\<close> is put into every one of them.
\<close>

definition assign_preflare_irradiance ::
  "fl list option \<Rightarrow> (string \<times> cell) list \<Rightarrow> py_error + (string \<times> cell) list" where
  "assign_preflare_irradiance vals row =
     (let preflare_irradiance_cols =
            filter (\<lambda>col. sublist ''Pre-Flare Irradiance'' col) (map fst row)
      in case vals of
           None \<Rightarrow> Inr (fold (\<lambda>c. AList.update c PyNone) preflare_irradiance_cols row)
         | Some vs \<Rightarrow>
             if length vs \<noteq> length preflare_irradiance_cols then Inl ValueError
             else Inr (fold (\<lambda>(c, v). AList.update c (Number v))
                            (zip preflare_irradiance_cols vs) row))"

text \<open>
  Lines 202 to 230. \<open>prev\<close> is the flare at \<^verbatim>\<open>flare_index - 1\<close>. The \<^verbatim>\<open>else\<close>
  branch calls \<^verbatim>\<open>logger.info\<close> without asking for \<^verbatim>\<open>verbose\<close>.
\<close>

definition determine_preflare ::
  "config \<Rightarrow> ext \<Rightarrow> table \<Rightarrow> flare \<Rightarrow> flare \<Rightarrow> state \<Rightarrow> py_error + state" where
  "determine_preflare cfg ex eve_lines prev f st =
     (let minutes_since_last_flare = (peak_time f - peak_time prev) / 60 in
      case (if minutes_since_last_flare > threshold_time_prior_flare_minutes cfg then
              (let window_start = peak_time f - threshold_time_prior_flare_minutes cfg * 60;
                   window_end = peak_time f;
                   eve_lines_preflare_time = slice eve_lines window_start window_end
               in case for_each (preflare_column cfg ex f eve_lines_preflare_time)
                         (map fst (cols eve_lines_preflare_time)) ([], st) of
                    Inl e \<Rightarrow> Inl e
                  | Inr (vals, st') \<Rightarrow>
                      Inr (st'\<lparr>preflare_irradiance := Some vals,
                               preflare_window_start := Some window_start,
                               preflare_window_end := Some window_end\<rparr>))
            else info cfg ''This flare will use the pre-flare irradiance from the flare before.'' st) of
        Inl e \<Rightarrow> Inl e
      | Inr st1 \<Rightarrow>
          (case preflare_window_start st1 of
             None \<Rightarrow> Inl (UnboundLocalError ''preflare_window_start'')
           | Some window_start \<Rightarrow>
               (case preflare_window_end st1 of
                  None \<Rightarrow> Inl (UnboundLocalError ''preflare_window_end'')
                | Some window_end \<Rightarrow>
                    (case assign_preflare_irradiance (preflare_irradiance st1)
                            (jedi_row (set_fields
                               [(''Pre-Flare Start Time'', IsoString window_start),
                                (''Pre-Flare End Time'', IsoString window_end)] st1)) of
                       Inl e \<Rightarrow> Inl e
                     | Inr row \<Rightarrow>
                         Inr (info_if_verbose cfg ''pre-flare determination complete.''
                                (st1\<lparr>jedi_row := row\<rparr>))))))"

subsection \<open>One flare: the dimming window (lines 232 to 260)\<close>

text \<open>
  \<^verbatim>\<open>min(a, b)\<close> gives \<open>b\<close> when \<open>b < a\<close> and \<open>a\<close> otherwise; astropy compares a
  \<^verbatim>\<open>Time\<close> with an ISO string by the points in time they name, and so does \<^verbatim>\<open>==\<close>.
\<close>

definition py_min :: "timeval \<Rightarrow> timeval \<Rightarrow> timeval" where
  "py_min a b = (if time_of b < time_of a then b else a)"

definition py_eq :: "timeval \<Rightarrow> timeval \<Rightarrow> bool" where
  "py_eq a b = (time_of a = time_of b)"

text \<open>
  Lines 233 to 245. \<^verbatim>\<open>next_flare_time\<close> is an ISO string (line 234 ends in
  \<^verbatim>\<open>.iso\<close>), \<^verbatim>\<open>user_choice_time\<close> and \<^verbatim>\<open>bracket_time_left\<close> are \<^verbatim>\<open>Time\<close> objects.
\<close>

definition dimming_window ::
  "config \<Rightarrow> flare list \<Rightarrow> nat \<Rightarrow> flare \<Rightarrow> state \<Rightarrow> py_error + time \<times> timeval \<times> state" where
  "dimming_window cfg flares flare_index f st =
     (let bracket_time_left =
            peak_time f - dimming_window_relative_to_flare_minutes_left cfg * 60
      in case get flares (flare_index + 1) of
           Inl e \<Rightarrow> Inl e
         | Inr nxt \<Rightarrow>
             (let next_flare_time = IsoStr (peak_time nxt);
                  user_choice_time =
                    TimeObj (peak_time f + dimming_window_relative_to_flare_minutes_right cfg * 60);
                  bracket_time_right = py_min next_flare_time user_choice_time;
                  flare_interrupt = py_eq bracket_time_right next_flare_time;
                  st1 = (if flare_interrupt then info_if_verbose cfg ''Flare interrupt'' st else st)
              in Inr (bracket_time_left, bracket_time_right,
                      set_fields [(''Flare Interrupt'', Flag flare_interrupt)] st1)))"

text \<open>
  Line 248, \<^verbatim>\<open>(bracket_time_right - bracket_time_left).sec / 60.0\<close>: a string minus a
  \<^verbatim>\<open>Time\<close> is a TypeError.
\<close>

definition window_minutes :: "timeval \<Rightarrow> time \<Rightarrow> py_error + rat" where
  "window_minutes bracket_time_right bracket_time_left =
     (case bracket_time_right of
        IsoStr t \<Rightarrow> Inl TypeError
      | TimeObj t \<Rightarrow> Inr ((t - bracket_time_left) / 60))"

subsection \<open>One flare: percent units (lines 265 to 269)\<close>

text \<open>
  \<^verbatim>\<open>(eve_lines_event - preflare_irradiance) / preflare_irradiance * 100.0\<close>: the list is
  laid along the columns, one value per column.
\<close>

definition to_percent :: "table \<Rightarrow> fl list option \<Rightarrow> py_error + table" where
  "to_percent eve_lines_event baseline =
     (case baseline of
        None \<Rightarrow> Inl TypeError
      | Some bs \<Rightarrow>
          if length bs \<noteq> length (cols eve_lines_event) then Inl ValueError
          else Inr (eve_lines_event\<lparr>cols :=
                 map (\<lambda>((l, vs), b). (l, map (\<lambda>v. fl_mul (fl_div (fl_sub v b) b) (Fin 100)) vs))
                     (zip (cols eve_lines_event) bs)\<rparr>))"

subsection \<open>One flare: flare removal, fitting, parameterization (lines 271 to 440)\<close>

text \<open>
  The body of the loop of line 272 for the pair \<^verbatim>\<open>ion_tuples[i]\<close> and its name
  \<^verbatim>\<open>ion_permutations[i]\<close>.
\<close>

definition flare_removal ::
  "config \<Rightarrow> ext \<Rightarrow> flare \<Rightarrow> (string \<times> string) \<times> string \<Rightarrow> table \<times> state \<Rightarrow>
     py_error + table \<times> state" where
  "flare_removal cfg ex f pair acc =
     (case column (fst acc) (fst (fst pair)) of
        Inl e \<Rightarrow> Inl e
      | Inr light_curve_to_subtract_from \<Rightarrow>
          (case column (fst acc) (snd (fst pair)) of
             Inl e \<Rightarrow> Inl e
           | Inr light_curve_to_subtract_with \<Rightarrow>
               if all_null light_curve_to_subtract_from \<or> all_null light_curve_to_subtract_with
               then Inr (fst acc,
                         info_if_verbose cfg ''correction skipped because all irradiances are NaN.''
                           (snd acc))
               else
                 (case light_curve_peak_match_subtract ex light_curve_to_subtract_from
                         light_curve_to_subtract_with (peak_time f) (verbose cfg) of
                    Inl e \<Rightarrow> Inl e
                  | Inr (light_curve_corrected, seconds_shift, scale_factor) \<Rightarrow>
                      Inr (set_column (fst acc) (snd pair) light_curve_corrected,
                           info_if_verbose cfg ''flare removal correction complate''
                             (set_fields
                                [(snd pair @ '' Correction Time Shift [s]'', seconds_shift),
                                 (snd pair @ '' Correction Scale Factor'', scale_factor)]
                                ((snd acc)\<lparr>calls := calls (snd acc) @
                                   [CorrectionCall light_curve_to_subtract_from
                                      light_curve_to_subtract_with (peak_time f) (verbose cfg)]\<rparr>))))))"

text \<open>Line 298: one uncertainty per sample of the window.\<close>

definition uncertainty :: "table \<Rightarrow> rat list" where
  "uncertainty eve_lines_event = replicate (length (time_index eve_lines_event)) (2545 / 1000000)"

text \<open>The body of the loop of line 303; the fit is always called with \<^verbatim>\<open>verbose=False\<close>.\<close>

definition fit_column ::
  "config \<Rightarrow> ext \<Rightarrow> string \<Rightarrow> table \<times> state \<Rightarrow> py_error + table \<times> state" where
  "fit_column cfg ex col acc =
     (case column (fst acc) col of
        Inl e \<Rightarrow> Inl e
      | Inr eve_line_event \<Rightarrow>
          if all_null eve_line_event
          then Inr (fst acc,
                    info_if_verbose cfg ''fitting skipped because all irradiances are NaN.'' (snd acc))
          else
            (case automatic_fit_coronal_dimming_light_curve ex eve_line_event
                    (uncertainty (fst acc)) False of
               Inl e \<Rightarrow> Inl e
             | Inr (light_curve_fit, best_fit_gamma, best_fit_score) \<Rightarrow>
                 Inr (set_column (fst acc) col light_curve_fit,
                      info_if_verbose cfg ''light curves fitted.''
                        (set_fields
                           [(col @ '' Fitting Gamma'', best_fit_gamma),
                            (col @ '' Fitting Score'', best_fit_score)]
                           ((snd acc)\<lparr>calls := calls (snd acc) @
                              [FitCall eve_line_event (uncertainty (fst acc)) False]\<rparr>)))))"

definition time_cell :: "time option \<Rightarrow> cell" where
  "time_cell t = (case t of None \<Rightarrow> PyNone | Some x \<Rightarrow> Timestamp x)"

text \<open>The body of the loop of line 329, without the summary plot.\<close>

definition parameterize_column ::
  "config \<Rightarrow> ext \<Rightarrow> flare \<Rightarrow> table \<Rightarrow> string \<Rightarrow> state \<Rightarrow> py_error + state" where
  "parameterize_column cfg ex f eve_lines_event col st =
     (case column eve_lines_event col of
        Inl e \<Rightarrow> Inl e
      | Inr eve_line_event \<Rightarrow>
          if all_null eve_line_event
          then Inr (info_if_verbose cfg
                      ''parameterization skipped because all irradiances are NaN.'' st)
          else
            (case determine_dimming_depth ex eve_line_event (verbose cfg) of
               Inl e \<Rightarrow> Inl e
             | Inr (depth_percent, depth_time) \<Rightarrow>
                 (let slope_start_time = peak_time f;
                      slope_end_time = depth_time
                  in case determine_dimming_slope ex eve_line_event slope_start_time
                            slope_end_time (verbose cfg) of
                       Inl e \<Rightarrow> Inl e
                     | Inr (slope_min, slope_max, slope_mean) \<Rightarrow>
                         (case determine_dimming_duration ex eve_line_event slope_start_time
                                 (verbose cfg) of
                            Inl e \<Rightarrow> Inl e
                          | Inr (duration_seconds, duration_start_time, duration_end_time) \<Rightarrow>
                              Inr (info_if_verbose cfg ''Summary plot saved''
                                    (info_if_verbose cfg ''parameterizations complete.''
                                      (set_fields
                                         [(col @ '' Depth [%]'', depth_percent),
                                          (col @ '' Depth Time'', time_cell depth_time),
                                          (col @ '' Slope Min [%/s]'', slope_min),
                                          (col @ '' Slope Max [%/s]'', slope_max),
                                          (col @ '' Slope Mean [%/s]'', slope_mean),
                                          (col @ '' Slope Start Time'', Timestamp slope_start_time),
                                          (col @ '' Slope End Time'', time_cell slope_end_time),
                                          (col @ '' Duration [s]'', duration_seconds),
                                          (col @ '' Duration Start Time'', duration_start_time),
                                          (col @ '' Duration End Time'', duration_end_time)]
                                         (st\<lparr>calls := calls st @
                                            [DepthCall eve_line_event (verbose cfg),
                                             SlopeCall eve_line_event slope_start_time
                                               slope_end_time (verbose cfg),
                                             DurationCall eve_line_event slope_start_time
                                               (verbose cfg)]\<rparr>))))))))"

text \<open>
  Lines 260 to 445, for a window that is long enough: \<^verbatim>\<open>bracket_time_right.iso\<close> needs
  a \<^verbatim>\<open>Time\<close> object.
\<close>

definition dimming_parameters ::
  "config \<Rightarrow> ext \<Rightarrow> table \<Rightarrow> flare \<Rightarrow> time \<Rightarrow> timeval \<Rightarrow> state \<Rightarrow> py_error + state" where
  "dimming_parameters cfg ex eve_lines f bracket_time_left bracket_time_right st =
     (case bracket_time_right of
        IsoStr t \<Rightarrow> Inl AttributeError
      | TimeObj t \<Rightarrow>
          (case to_percent (slice eve_lines bracket_time_left t)
                  (preflare_irradiance st) of
             Inl e \<Rightarrow> Inl e
           | Inr eve_lines_event \<Rightarrow>
               (case for_each (flare_removal cfg ex f)
                       (zip (ion_tuples (map fst (cols eve_lines)))
                            (ion_permutations (map fst (cols eve_lines))))
                       (eve_lines_event,
                        info_if_verbose cfg ''irradiance converted from absolute to percent units.''
                          (info_if_verbose cfg ''EVE data clipped to dimming window.'' st)) of
                  Inl e \<Rightarrow> Inl e
                | Inr corrected \<Rightarrow>
                    (case for_each (fit_column cfg ex) (map fst (cols (fst corrected))) corrected of
                       Inl e \<Rightarrow> Inl e
                     | Inr fitted \<Rightarrow>
                         (case for_each (parameterize_column cfg ex f (fst fitted))
                                 (map fst (cols (fst fitted))) (snd fitted) of
                            Inl e \<Rightarrow> Inl e
                          | Inr st' \<Rightarrow>
                              Inr (info_if_verbose cfg ''JEDI row written.'' (to_csv st')))))))"

subsection \<open>The flare loop and the whole run\<close>

text \<open>
  The body of the loop of line 186 for a \<^verbatim>\<open>flare_index\<close> of at least 1 (index 0 is
  skipped in the loop itself, so \<^verbatim>\<open>flare_index - 1\<close> is never negative).
\<close>

definition process_flare ::
  "config \<Rightarrow> ext \<Rightarrow> table \<Rightarrow> flare list \<Rightarrow> nat \<Rightarrow> state \<Rightarrow> py_error + state" where
  "process_flare cfg ex eve_lines flares flare_index st =
     (case get flares flare_index of
        Inl e \<Rightarrow> Inl e
      | Inr f \<Rightarrow>
          (case get flares (flare_index - 1) of
             Inl e \<Rightarrow> Inl e
           | Inr prev \<Rightarrow>
               (case determine_preflare cfg ex eve_lines prev f (store_flare_details cfg f st) of
                  Inl e \<Rightarrow> Inl e
                | Inr st1 \<Rightarrow>
                    (case dimming_window cfg flares flare_index f st1 of
                       Inl e \<Rightarrow> Inl e
                     | Inr (bracket_time_left, bracket_time_right, st2) \<Rightarrow>
                         (case window_minutes bracket_time_right bracket_time_left of
                            Inl e \<Rightarrow> Inl e
                          | Inr minutes \<Rightarrow>
                              if minutes < threshold_minimum_dimming_window_minutes cfg
                              then Inr (info_if_verbose cfg
                                          ''The dimming window is shorter than the minimum threshold. Skipping this event''
                                          (to_csv st2))
                              else dimming_parameters cfg ex eve_lines f
                                     bracket_time_left bracket_time_right st2)))))"

text \<open>
  The loop over \<^verbatim>\<open>range(num_flares)\<close>. An exception ends the run: the result is then
  the exception and the state at the start of the iteration that raised. The row is
  appended as the last step of an iteration, so the \<open>csv\<close> of that state is the file as
  it is on disk when the run ends.
\<close>

fun flare_loop ::
  "config \<Rightarrow> ext \<Rightarrow> table \<Rightarrow> flare list \<Rightarrow> nat list \<Rightarrow> state \<Rightarrow> py_error option \<times> state" where
  "flare_loop cfg ex eve_lines flares [] st = (None, st)"
| "flare_loop cfg ex eve_lines flares (flare_index # rest) st =
     (if flare_index = 0 then flare_loop cfg ex eve_lines flares rest st
      else (case process_flare cfg ex eve_lines flares flare_index st of
              Inl e \<Rightarrow> (Some e, st)
            | Inr st' \<Rightarrow> flare_loop cfg ex eve_lines flares rest st'))"

text \<open>
  The state on entry to the loop (lines 71 to 183): the header and the still empty row
  are written by line 172 (\<^verbatim>\<open>header=True, mode='w'\<close>).
\<close>

definition initial_state :: "config \<Rightarrow> (string \<times> cell) list \<Rightarrow> state" where
  "initial_state cfg row =
     \<lparr>preflare_irradiance = None,
      preflare_window_start = None,
      preflare_window_end = None,
      jedi_row = row,
      csv = [Header (map fst row), Data (map snd row)],
      logger = (if verbose cfg
                then [''Starting JEDI processing pipeline.'', ''Loaded EVE data'',
                      ''Loaded GOES flare events.'', ''Created JEDI row definition.'']
                else []),
      calls = []\<rparr>"

definition generate_jedi_catalog ::
  "config \<Rightarrow> ext \<Rightarrow> table \<Rightarrow> flare list \<Rightarrow> py_error option \<times> csv_line list" where
  "generate_jedi_catalog cfg ex eve_lines flares =
     (case jedi_row_definition (map fst (cols eve_lines)) of
        Inl e \<Rightarrow> (Some e, [])
      | Inr row \<Rightarrow>
          (let r = flare_loop cfg ex eve_lines flares [0..<length flares] (initial_state cfg row)
           in (fst r, csv (snd r))))"

subsection \<open>The hold-over carried from one flare to the next\<close>

definition hold_over :: "state \<Rightarrow> fl list option \<times> time option \<times> time option" where
  "hold_over st = (preflare_irradiance st, preflare_window_start st, preflare_window_end st)"

subsection \<open>Example inputs\<close>

text \<open>The defaults of the keyword arguments (lines 30 to 35).\<close>

definition default_config :: config where
  "default_config =
     \<lparr>threshold_time_prior_flare_minutes = 240,
      dimming_window_relative_to_flare_minutes_left = 0,
      dimming_window_relative_to_flare_minutes_right = 240,
      threshold_minimum_dimming_window_minutes = 120,
      verbose = False\<rparr>"

text \<open>A shorter window (one hour, at least half an hour), with the messages on.\<close>

definition example_config :: config where
  "example_config =
     \<lparr>threshold_time_prior_flare_minutes = 240,
      dimming_window_relative_to_flare_minutes_left = 0,
      dimming_window_relative_to_flare_minutes_right = 60,
      threshold_minimum_dimming_window_minutes = 30,
      verbose = True\<rparr>"

text \<open>Routines that return fixed values.\<close>

definition example_ext :: ext where
  "example_ext =
     \<lparr>determine_preflare_irradiance = (\<lambda>s t v. Inr (Fin 2)),
      light_curve_peak_match_subtract = (\<lambda>a b t v. Inr (a, Number (Fin 0), Number (Fin 1))),
      automatic_fit_coronal_dimming_light_curve = (\<lambda>s u v. Inr (s, Number (Fin 1), Number (Fin 1))),
      determine_dimming_depth = (\<lambda>s v. Inr (Number (Fin 5), Some 18060)),
      determine_dimming_slope = (\<lambda>s a b v. Inr (Number (Fin 1), Number (Fin 2), Number (Fin 3))),
      determine_dimming_duration =
        (\<lambda>s a v. Inr (Number (Fin 60), Timestamp 18000, Timestamp 18060))\<rparr>"

text \<open>One emission line with samples at 0, 300, 301 and 401 minutes.\<close>

definition example_eve_lines :: table where
  "example_eve_lines =
     \<lparr>time_index = [0, 18000, 18060, 24060], cols = [(''a'', [Fin 1, Fin 2, Fin 3, Fin 1])]\<rparr>"

text \<open>The row that line 172 writes for this table.\<close>

definition example_row :: "(string \<times> cell) list" where
  "example_row = (case jedi_row_definition [''a''] of Inl e \<Rightarrow> [] | Inr row \<Rightarrow> row)"

text \<open>Four flares, with peaks at 0, 300, 400 and 1000 minutes.\<close>

definition example_flares :: "flare list" where
  "example_flares =
     [\<lparr>start_time = 0, peak_time = 0, flare_class = ''C1.0''\<rparr>,
      \<lparr>start_time = 17000, peak_time = 18000, flare_class = ''C1.0''\<rparr>,
      \<lparr>start_time = 23000, peak_time = 24000, flare_class = ''M2.0''\<rparr>,
      \<lparr>start_time = 59000, peak_time = 60000, flare_class = ''M2.0''\<rparr>]"

text \<open>Three flares, the second one 30 minutes after the first.\<close>

definition close_flares :: "flare list" where
  "close_flares =
     [\<lparr>start_time = 0, peak_time = 0, flare_class = ''C1.0''\<rparr>,
      \<lparr>start_time = 1700, peak_time = 1800, flare_class = ''C1.0''\<rparr>,
      \<lparr>start_time = 19700, peak_time = 19800, flare_class = ''M2.0''\<rparr>]"

text \<open>The state of the run on the example inputs once flare 1 is done.\<close>

definition state_after_flare_1 :: state where
  "state_after_flare_1 =
     snd (flare_loop example_config example_ext example_eve_lines example_flares [1]
            (initial_state example_config example_row))"

text \<open>The same arguments with the messages off, and the state once flare 1 is done.\<close>

definition quiet_config :: config where
  "quiet_config = example_config\<lparr>verbose := False\<rparr>"

definition quiet_state_after_flare_1 :: state where
  "quiet_state_after_flare_1 =
     snd (flare_loop quiet_config example_ext example_eve_lines example_flares [1]
            (initial_state quiet_config example_row))"

text \<open>Routines of which the slope and the duration routine raise.\<close>

definition failing_ext :: ext where
  "failing_ext =
     example_ext\<lparr>determine_dimming_slope := (\<lambda>s a b v. Inl (RoutineError ''slope'')),
                 determine_dimming_duration := (\<lambda>s a v. Inl (RoutineError ''duration''))\<rparr>"

text \<open>A window in percent units with three lines, one of them all NaN.\<close>

definition example_window :: table where
  "example_window =
     \<lparr>time_index = [18000, 18060],
      cols = [(''a'', [Fin 1, Fin 2]), (''b'', [NaN, NaN]), (''c'', [NaN, Fin 3])]\<rparr>"

section \<open>Properties\<close>

subsection \<open>Auxiliary facts\<close>

lemma info_if_verbose_fields:
  "jedi_row (info_if_verbose cfg msg st) = jedi_row st"
  "csv (info_if_verbose cfg msg st) = csv st"
  "calls (info_if_verbose cfg msg st) = calls st"
  "preflare_irradiance (info_if_verbose cfg msg st) = preflare_irradiance st"
  "preflare_window_start (info_if_verbose cfg msg st) = preflare_window_start st"
  "preflare_window_end (info_if_verbose cfg msg st) = preflare_window_end st"
  by (simp_all add: info_if_verbose_def)

lemma set_fields_fields:
  "csv (set_fields kvs st) = csv st"
  "calls (set_fields kvs st) = calls st"
  "logger (set_fields kvs st) = logger st"
  "preflare_irradiance (set_fields kvs st) = preflare_irradiance st"
  "preflare_window_start (set_fields kvs st) = preflare_window_start st"
  "preflare_window_end (set_fields kvs st) = preflare_window_end st"
  by (simp_all add: set_fields_def)

lemma set_fields_Nil: "jedi_row (set_fields [] st) = jedi_row st"
  by (simp add: set_fields_def)

lemma set_fields_Cons:
  "jedi_row (set_fields ((k, v) # kvs) st) =
     jedi_row (set_fields kvs (st\<lparr>jedi_row := AList.update k v (jedi_row st)\<rparr>))"
  by (simp add: set_fields_def)

lemma map_of_update_same: "map_of (AList.update k v al) k = Some v"
  by (simp add: AList.update_conv')

lemma map_of_update_other: "k' \<noteq> k \<Longrightarrow> map_of (AList.update k v al) k' = map_of al k'"
  by (simp add: AList.update_conv')

lemma hold_over_simps:
  "hold_over (info_if_verbose cfg msg st) = hold_over st"
  "hold_over (set_fields kvs st) = hold_over st"
  "hold_over (to_csv st) = hold_over st"
  "hold_over (st\<lparr>calls := c\<rparr>) = hold_over st"
  "hold_over (st\<lparr>jedi_row := r\<rparr>) = hold_over st"
  by (simp_all add: hold_over_def info_if_verbose_def set_fields_def to_csv_def)

text \<open>A loop whose body keeps a part of the state keeps it.\<close>

lemma for_each_preserves:
  assumes "\<And>x s s'. body x s = Inr s' \<Longrightarrow> p s' = p s"
    and "for_each body xs s = Inr s'"
  shows "p s' = p s"
  using assms(2)
proof (induction xs arbitrary: s)
  case Nil
  then show ?case by simp
next
  case (Cons x xs)
  then obtain s1 where s1: "body x s = Inr s1" and rest: "for_each body xs s1 = Inr s'"
    by (auto split: sum.splits)
  from Cons.IH [OF rest] assms(1) [OF s1] show ?case by simp
qed

text \<open>The name of a pair is built from the pair it stands beside.\<close>

lemma zip_tuples_permutations:
  "zip (ion_tuples labels) (ion_permutations labels) =
     map (\<lambda>p. (p, fst p @ '' by '' @ snd p)) (ion_tuples labels)"
  by (simp add: ion_permutations_def zip_map2 zip_same_conv_map case_prod_unfold)

lemma pair_label_distinct: "a @ '' by '' @ b \<noteq> a" "a @ '' by '' @ b \<noteq> b"
proof -
  have "length (a @ '' by '' @ b) \<noteq> length a" by simp
  then show "a @ '' by '' @ b \<noteq> a" by fastforce
  have "length (a @ '' by '' @ b) \<noteq> length b" by simp
  then show "a @ '' by '' @ b \<noteq> b" by fastforce
qed

text \<open>What a completed iteration of the flare loop went through.\<close>

lemma process_flare_InrE:
  assumes run: "process_flare cfg ex eve_lines flares i st = Inr st'"
  obtains st1 l r st2 minutes where
    "i < length flares"
    "determine_preflare cfg ex eve_lines (flares ! (i - 1)) (flares ! i)
       (store_flare_details cfg (flares ! i) st) = Inr st1"
    "dimming_window cfg flares i (flares ! i) st1 = Inr (l, r, st2)"
    "window_minutes r l = Inr minutes"
    "if minutes < threshold_minimum_dimming_window_minutes cfg
     then st' = info_if_verbose cfg
                  ''The dimming window is shorter than the minimum threshold. Skipping this event''
                  (to_csv st2)
     else dimming_parameters cfg ex eve_lines (flares ! i) l r st2 = Inr st'"
proof -
  have i: "i < length flares"
    using run by (simp add: process_flare_def get_def split: if_splits)
  then have i1: "i - 1 < length flares"
    by simp
  have g: "get flares i = Inr (flares ! i)" "get flares (i - 1) = Inr (flares ! (i - 1))"
    using i i1 by (simp_all add: get_def del: One_nat_def)
  note run' = run [unfolded process_flare_def g sum.case]
  obtain st1 where
    pre: "determine_preflare cfg ex eve_lines (flares ! (i - 1)) (flares ! i)
            (store_flare_details cfg (flares ! i) st) = Inr st1"
    using run' by (cases "determine_preflare cfg ex eve_lines (flares ! (i - 1)) (flares ! i)
            (store_flare_details cfg (flares ! i) st)") simp_all
  note run2 = run' [unfolded pre sum.case]
  obtain l r st2 where win: "dimming_window cfg flares i (flares ! i) st1 = Inr (l, r, st2)"
    using run2 by (cases "dimming_window cfg flares i (flares ! i) st1") auto
  note run3 = run2 [unfolded win sum.case prod.case]
  obtain minutes where mins: "window_minutes r l = Inr minutes"
    using run3 by (cases "window_minutes r l") simp_all
  note run4 = run3 [unfolded mins sum.case]
  have "if minutes < threshold_minimum_dimming_window_minutes cfg
     then st' = info_if_verbose cfg
                  ''The dimming window is shorter than the minimum threshold. Skipping this event''
                  (to_csv st2)
     else dimming_parameters cfg ex eve_lines (flares ! i) l r st2 = Inr st'"
    using run4 by (simp split: if_splits)
  with i pre win mins show thesis
    by (rule that)
qed

text \<open>Only the recomputation of lines 205 to 218 writes the hold-over.\<close>

lemma flare_removal_hold_over:
  "flare_removal cfg ex f pair acc = Inr acc' \<Longrightarrow> hold_over (snd acc') = hold_over (snd acc)"
  by (auto simp: flare_removal_def hold_over_simps split: sum.splits if_splits)

lemma fit_column_hold_over:
  "fit_column cfg ex col acc = Inr acc' \<Longrightarrow> hold_over (snd acc') = hold_over (snd acc)"
  by (auto simp: fit_column_def hold_over_simps split: sum.splits if_splits)

lemma parameterize_column_hold_over:
  "parameterize_column cfg ex f tb col st = Inr st' \<Longrightarrow> hold_over st' = hold_over st"
  by (auto simp: parameterize_column_def hold_over_simps Let_def split: sum.splits if_splits)

lemma dimming_parameters_hold_over:
  assumes "dimming_parameters cfg ex eve_lines f l r st = Inr st'"
  shows "hold_over st' = hold_over st"
proof -
  from assms obtain t tb corrected fitted st2 where
    c: "for_each (flare_removal cfg ex f)
       (zip (ion_tuples (map fst (cols eve_lines))) (ion_permutations (map fst (cols eve_lines))))
       (tb, info_if_verbose cfg ''irradiance converted from absolute to percent units.''
              (info_if_verbose cfg ''EVE data clipped to dimming window.'' st)) = Inr corrected"
    and f: "for_each (fit_column cfg ex) (map fst (cols (fst corrected))) corrected = Inr fitted"
    and p: "for_each (parameterize_column cfg ex f (fst fitted)) (map fst (cols (fst fitted)))
           (snd fitted) = Inr st2"
    and e: "st' = info_if_verbose cfg ''JEDI row written.'' (to_csv st2)"
    unfolding dimming_parameters_def
    by (auto split: timeval.splits sum.splits)
  have "hold_over (snd corrected) = hold_over st"
    using for_each_preserves [where p = "\<lambda>acc. hold_over (snd acc)", OF flare_removal_hold_over c]
    by (simp add: hold_over_simps)
  moreover have "hold_over (snd fitted) = hold_over (snd corrected)"
    using for_each_preserves [where p = "\<lambda>acc. hold_over (snd acc)", OF fit_column_hold_over f] .
  moreover have "hold_over st2 = hold_over (snd fitted)"
    using for_each_preserves [where p = hold_over, OF parameterize_column_hold_over p] .
  ultimately show ?thesis
    by (simp add: e hold_over_simps)
qed

lemma dimming_window_hold_over:
  "dimming_window cfg flares i f st = Inr (l, r, st') \<Longrightarrow> hold_over st' = hold_over st"
  by (auto simp: dimming_window_def Let_def hold_over_simps split: sum.splits if_splits)

lemma determine_preflare_reuse:
  assumes "determine_preflare cfg ex eve_lines prev f st = Inr st1"
    and "(peak_time f - peak_time prev) / 60 \<le> threshold_time_prior_flare_minutes cfg"
  shows "hold_over st1 = hold_over st \<and> verbose cfg \<and> preflare_window_start st \<noteq> None \<and>
         preflare_window_end st \<noteq> None"
proof -
  from assms(2) have "\<not> (peak_time f - peak_time prev) / 60 > threshold_time_prior_flare_minutes cfg"
    by simp
  with assms(1) obtain st0 row where
    "info cfg ''This flare will use the pre-flare irradiance from the flare before.'' st = Inr st0"
    and "preflare_window_start st0 \<noteq> None" and "preflare_window_end st0 \<noteq> None"
    and "st1 = info_if_verbose cfg ''pre-flare determination complete.'' (st0\<lparr>jedi_row := row\<rparr>)"
    unfolding determine_preflare_def Let_def
    by (auto split: sum.splits option.splits)
  then show ?thesis
    by (auto simp: info_def info_if_verbose_fields hold_over_def split: if_splits)
qed

subsection \<open>The rows of the catalog\<close>

text \<open>
  C1 (the code does not write one row per flare). With two flares and the default
  arguments, the iteration for flare 1, the last one, reads \<^verbatim>\<open>peak_time[2]\<close> at line 234
  and ends the run with an IndexError: the file holds the header and the empty row of
  line 172, and no row for flare 1.
\<close>

theorem last_flare_raises_IndexError:
  "generate_jedi_catalog default_config example_ext example_eve_lines (take 2 example_flares) =
     (Some IndexError, [Header (map fst example_row), Data (map snd example_row)])"
  by code_simp

text \<open>
  C2 (the code does not skip a flare whose window a next flare cuts short). With the
  default arguments, flare 1 peaks at 300 minutes and flare 2 at 400 minutes: the window
  is 100 minutes long, below the minimum of 120. The right end is then the ISO string of
  the next peak, line 248 subtracts a \<^verbatim>\<open>Time\<close> from that string, and the run ends with a
  TypeError before any row is written for flare 1.
\<close>

theorem interrupted_window_raises_TypeError:
  "generate_jedi_catalog default_config example_ext example_eve_lines example_flares =
     (Some TypeError, [Header (map fst example_row), Data (map snd example_row)])"
  by code_simp

subsection \<open>The pre-flare hold-over\<close>

text \<open>
  C3 (the code does not reuse the pre-flare irradiance when \<^verbatim>\<open>verbose\<close> is off). On the
  example inputs with \<^verbatim>\<open>verbose\<close> off, flare 1 is processed with a recomputed pre-flare
  irradiance, and flare 2 peaks 100 minutes after flare 1, within the threshold of 240
  minutes. Its iteration takes the \<^verbatim>\<open>else\<close> branch of line 219, whose \<^verbatim>\<open>logger.info\<close>
  reads the unbound \<^verbatim>\<open>logger\<close>: the run ends there, and flare 2 uses no pre-flare
  irradiance at all.
\<close>

theorem reuse_raises_without_verbose:
  "preflare_irradiance quiet_state_after_flare_1 = Some [Fin 2] \<and>
   (peak_time (example_flares ! 2) - peak_time (example_flares ! 1)) / 60
     \<le> threshold_time_prior_flare_minutes quiet_config \<and>
   process_flare quiet_config example_ext example_eve_lines example_flares 2
     quiet_state_after_flare_1 = Inl (UnboundLocalError ''logger'')"
  by code_simp

subsection \<open>The dimming window\<close>

text \<open>
  C4. For a flare that has a following flare, the right end of the dimming window is the
  earlier of the next flare's peak time and the flare's own peak time plus the right offset
  (in minutes), and the value stored under \<^verbatim>\<open>Flare Interrupt\<close> in the row is true
  exactly when that right end is the next flare's peak time. (When it is, the right end is
  held as the next flare's ISO string.)
\<close>

theorem dimming_window_right_bound:
  assumes "flare_index + 1 < length flares"
  shows "\<exists>l r st'.
           dimming_window cfg flares flare_index (flares ! flare_index) st = Inr (l, r, st') \<and>
           time_of r = min (peak_time (flares ! (flare_index + 1)))
                           (peak_time (flares ! flare_index) +
                            dimming_window_relative_to_flare_minutes_right cfg * 60) \<and>
           map_of (jedi_row st') ''Flare Interrupt'' =
             Some (Flag (time_of r = peak_time (flares ! (flare_index + 1))))"
  using assms
  by (simp add: dimming_window_def get_def Let_def py_min_def py_eq_def
      set_fields_Cons set_fields_Nil map_of_update_same info_if_verbose_fields min_def)

theorem dimming_window_right_bound_witness:
  "(1::nat) + 1 < length example_flares \<and>
   (\<exists>l r st'.
      dimming_window default_config example_flares 1 (example_flares ! 1)
        (initial_state default_config example_row) = Inr (l, r, st') \<and>
      time_of r = 24000 \<and>
      map_of (jedi_row st') ''Flare Interrupt'' = Some (Flag True))"
proof -
  have h: "(1::nat) + 1 < length example_flares"
    by (simp add: example_flares_def)
  obtain l r st' where
    run: "dimming_window default_config example_flares 1 (example_flares ! 1)
            (initial_state default_config example_row) = Inr (l, r, st')"
    and right: "time_of r = min (peak_time (example_flares ! (1 + 1)))
                  (peak_time (example_flares ! 1) +
                   dimming_window_relative_to_flare_minutes_right default_config * 60)"
    and flag: "map_of (jedi_row st') ''Flare Interrupt'' =
                 Some (Flag (time_of r = peak_time (example_flares ! (1 + 1))))"
    using dimming_window_right_bound [OF h] by blast
  have r24: "time_of r = 24000"
    using right by (simp add: example_flares_def default_config_def)
  have "map_of (jedi_row st') ''Flare Interrupt'' = Some (Flag True)"
    using flag r24 by (simp add: example_flares_def)
  with h run r24 show ?thesis by blast
qed

text \<open>
  C5 (the code departs from its docstring). The left end of the window is computed as the
  peak time minus the left offset: with an offset of -10 minutes and a peak at 18000 s the
  left end is 18600 s, ten minutes after the peak, where the docstring of the argument
  puts it ten minutes before.
\<close>

theorem bracket_time_left_negative_offset:
  "\<exists>r st'. dimming_window
              (default_config\<lparr>dimming_window_relative_to_flare_minutes_left := - 10\<rparr>)
              example_flares 1 (example_flares ! 1) (initial_state default_config example_row)
            = Inr (18600, r, st')"
  by (simp add: dimming_window_def get_def Let_def example_flares_def default_config_def)

subsection \<open>Parameterization\<close>

text \<open>
  C6. For a column of the window that is not all NaN, the outcome of the parameterization
  is fixed by three results: that of the depth routine on the column, that of the slope
  routine on the column with the flare's peak time as earliest and the depth routine's
  depth time as latest allowed time, and that of the duration routine on the column with the
  flare's peak time as earliest allowed time. An exception of the depth routine is the
  outcome whatever the other two do, an exception of the slope routine is the outcome
  whatever the duration routine does, so the order is depth, slope, duration; when all
  three return, the row holds their results, the peak time as slope start time and the depth
  time (\<open>time_cell (Some t) = Timestamp t\<close>) as depth time and as slope end time.
\<close>

theorem parameterization_bound_chaining:
  assumes col: "column eve_lines_event col = Inr s"
    and some: "\<not> all_null s"
  shows
    "case determine_dimming_depth ex s (verbose cfg) of
       Inl e \<Rightarrow> parameterize_column cfg ex f eve_lines_event col st = Inl e
     | Inr (depth_percent, depth_time) \<Rightarrow>
         (case determine_dimming_slope ex s (peak_time f) depth_time (verbose cfg) of
            Inl e \<Rightarrow> parameterize_column cfg ex f eve_lines_event col st = Inl e
          | Inr (slope_min, slope_max, slope_mean) \<Rightarrow>
              (case determine_dimming_duration ex s (peak_time f) (verbose cfg) of
                 Inl e \<Rightarrow> parameterize_column cfg ex f eve_lines_event col st = Inl e
               | Inr (duration_seconds, duration_start_time, duration_end_time) \<Rightarrow>
                   (\<exists>st'. parameterize_column cfg ex f eve_lines_event col st = Inr st' \<and>
                      calls st' = calls st @
                        [DepthCall s (verbose cfg),
                         SlopeCall s (peak_time f) depth_time (verbose cfg),
                         DurationCall s (peak_time f) (verbose cfg)] \<and>
                      map_of (jedi_row st') (col @ '' Depth [%]'') = Some depth_percent \<and>
                      map_of (jedi_row st') (col @ '' Depth Time'') = Some (time_cell depth_time) \<and>
                      map_of (jedi_row st') (col @ '' Slope Min [%/s]'') = Some slope_min \<and>
                      map_of (jedi_row st') (col @ '' Slope Max [%/s]'') = Some slope_max \<and>
                      map_of (jedi_row st') (col @ '' Slope Mean [%/s]'') = Some slope_mean \<and>
                      map_of (jedi_row st') (col @ '' Slope Start Time'') =
                        Some (Timestamp (peak_time f)) \<and>
                      map_of (jedi_row st') (col @ '' Slope End Time'') =
                        Some (time_cell depth_time) \<and>
                      map_of (jedi_row st') (col @ '' Duration [s]'') = Some duration_seconds \<and>
                      map_of (jedi_row st') (col @ '' Duration Start Time'') =
                        Some duration_start_time \<and>
                      map_of (jedi_row st') (col @ '' Duration End Time'') =
                        Some duration_end_time)))"
proof (cases "determine_dimming_depth ex s (verbose cfg)")
  case (Inl e)
  with col some show ?thesis
    by (simp add: parameterize_column_def)
next
  case depth: (Inr d)
  obtain depth_percent depth_time where d: "d = (depth_percent, depth_time)"
    by (cases d)
  show ?thesis
  proof (cases "determine_dimming_slope ex s (peak_time f) depth_time (verbose cfg)")
    case (Inl e)
    with col some depth d show ?thesis
      by (simp add: parameterize_column_def)
  next
    case slope: (Inr sl)
    obtain slope_min slope_max slope_mean where sl: "sl = (slope_min, slope_max, slope_mean)"
      by (cases sl)
    show ?thesis
    proof (cases "determine_dimming_duration ex s (peak_time f) (verbose cfg)")
      case (Inl e)
      with col some depth d slope sl show ?thesis
        by (simp add: parameterize_column_def)
    next
      case duration: (Inr du)
      obtain duration_seconds duration_start_time duration_end_time where
        du: "du = (duration_seconds, duration_start_time, duration_end_time)"
        by (cases du)
      from col some depth d slope sl duration du show ?thesis
        by (simp add: parameterize_column_def Let_def info_if_verbose_fields
            set_fields_fields set_fields_Cons set_fields_Nil map_of_update_same
            map_of_update_other)
    qed
  qed
qed

theorem parameterization_bound_chaining_witness:
  "column example_window ''a'' = Inr [(18000, Fin 1), (18060, Fin 2)] \<and>
   \<not> all_null [(18000, Fin 1), (18060, Fin 2)] \<and>
   (\<exists>st'. parameterize_column example_config example_ext (example_flares ! 1) example_window ''a''
            (initial_state example_config example_row) = Inr st' \<and>
          map_of (jedi_row st') ''a Depth Time'' = Some (Timestamp 18060) \<and>
          map_of (jedi_row st') ''a Slope Start Time'' = Some (Timestamp 18000) \<and>
          map_of (jedi_row st') ''a Slope End Time'' = Some (Timestamp 18060) \<and>
          map_of (jedi_row st') ''a Slope Mean [%/s]'' = Some (Number (Fin 3)) \<and>
          map_of (jedi_row st') ''a Duration [s]'' = Some (Number (Fin 60))) \<and>
   parameterize_column example_config failing_ext (example_flares ! 1) example_window ''a''
     (initial_state example_config example_row) = Inl (RoutineError ''slope'')"
proof -
  let ?s = "[(18000, Fin 1), (18060, Fin 2)] :: series"
  let ?st = "initial_state example_config example_row"
  have col: "column example_window ''a'' = Inr ?s"
    by (simp add: column_def example_window_def)
  have some: "\<not> all_null ?s"
    by (simp add: all_null_def)
  have completed: "\<exists>st'. parameterize_column example_config example_ext (example_flares ! 1)
            example_window ''a'' ?st = Inr st' \<and>
          map_of (jedi_row st') ''a Depth Time'' = Some (Timestamp 18060) \<and>
          map_of (jedi_row st') ''a Slope Start Time'' = Some (Timestamp 18000) \<and>
          map_of (jedi_row st') ''a Slope End Time'' = Some (Timestamp 18060) \<and>
          map_of (jedi_row st') ''a Slope Mean [%/s]'' = Some (Number (Fin 3)) \<and>
          map_of (jedi_row st') ''a Duration [s]'' = Some (Number (Fin 60))"
    using parameterization_bound_chaining [OF col some, where ex = example_ext
        and cfg = example_config and f = "example_flares ! 1" and st = ?st]
    by (auto simp add: example_ext_def example_flares_def time_cell_def)
  have raised: "parameterize_column example_config failing_ext (example_flares ! 1) example_window
                  ''a'' ?st = Inl (RoutineError ''slope'')"
    using parameterization_bound_chaining [OF col some, where ex = failing_ext
        and cfg = example_config and f = "example_flares ! 1" and st = ?st]
    by (simp add: failing_ext_def example_ext_def)
  from col some completed raised show ?thesis
    by blast
qed

subsection \<open>The verbose flag\<close>

text \<open>
  C7 (the code lets \<^verbatim>\<open>verbose\<close> decide what is written). On the example inputs, flare 2
  peaks 100 minutes after flare 1 and takes the \<^verbatim>\<open>else\<close> branch of line 219, whose
  \<^verbatim>\<open>logger.info\<close> is not under \<^verbatim>\<open>if verbose:\<close>. With \<^verbatim>\<open>verbose\<close> on, the file gets four
  lines (header, empty row, flares 1 and 2); with \<^verbatim>\<open>verbose\<close> off and everything else the
  same, the run ends there with an UnboundLocalError and the file has the first three.
\<close>

theorem verbose_changes_catalog:
  "length (snd (generate_jedi_catalog example_config example_ext example_eve_lines
                  example_flares)) = 4 \<and>
   generate_jedi_catalog (example_config\<lparr>verbose := False\<rparr>) example_ext example_eve_lines
     example_flares =
     (Some (UnboundLocalError ''logger''),
      take 3 (snd (generate_jedi_catalog example_config example_ext example_eve_lines
                     example_flares)))"
  by code_simp

subsection \<open>Flare removal\<close>

text \<open>
  C8. For a pair of the loop of line 272 whose two columns are in the window: if one of
  the two columns is all NaN the pair is skipped, which returns normally with the table,
  the row and the calls as they were; otherwise the correction routine is called with the
  two columns and the peak time, and when it returns, its light curve is stored in the
  window under the pair's name, and its time shift and scale factor are stored in the row
  under the pair's two correction columns. The pair's name is the two labels joined by
  \<^verbatim>\<open>by\<close>, which is neither of the two labels.
\<close>

theorem flare_removal_skip_iff:
  assumes pair: "pair \<in> set (zip (ion_tuples labels) (ion_permutations labels))"
    and a: "column tb (fst (fst pair)) = Inr sa"
    and b: "column tb (snd (fst pair)) = Inr sb"
  shows "(all_null sa \<or> all_null sb \<longrightarrow>
            (\<exists>st'. flare_removal cfg ex f pair (tb, st) = Inr (tb, st') \<and>
                   jedi_row st' = jedi_row st \<and> calls st' = calls st)) \<and>
         (\<not> (all_null sa \<or> all_null sb) \<longrightarrow>
            (case light_curve_peak_match_subtract ex sa sb (peak_time f) (verbose cfg) of
               Inl e \<Rightarrow> flare_removal cfg ex f pair (tb, st) = Inl e
             | Inr (corrected, seconds_shift, scale_factor) \<Rightarrow>
                 (\<exists>tb' st'. flare_removal cfg ex f pair (tb, st) = Inr (tb', st') \<and>
                    calls st' = calls st @ [CorrectionCall sa sb (peak_time f) (verbose cfg)] \<and>
                    map_of (cols tb') (snd pair) = Some (align (time_index tb) corrected) \<and>
                    map_of (jedi_row st') (snd pair @ '' Correction Time Shift [s]'') =
                      Some seconds_shift \<and>
                    map_of (jedi_row st') (snd pair @ '' Correction Scale Factor'') =
                      Some scale_factor))) \<and>
         snd pair = fst (fst pair) @ '' by '' @ snd (fst pair) \<and>
         snd pair \<noteq> fst (fst pair) \<and> snd pair \<noteq> snd (fst pair)"
proof -
  have label: "snd pair = fst (fst pair) @ '' by '' @ snd (fst pair)"
    using pair unfolding zip_tuples_permutations by auto
  have skip: "\<exists>st'. flare_removal cfg ex f pair (tb, st) = Inr (tb, st') \<and>
                   jedi_row st' = jedi_row st \<and> calls st' = calls st"
    if "all_null sa \<or> all_null sb"
    using that a b by (simp add: flare_removal_def info_if_verbose_fields)
  have go: "case light_curve_peak_match_subtract ex sa sb (peak_time f) (verbose cfg) of
               Inl e \<Rightarrow> flare_removal cfg ex f pair (tb, st) = Inl e
             | Inr (corrected, seconds_shift, scale_factor) \<Rightarrow>
                 (\<exists>tb' st'. flare_removal cfg ex f pair (tb, st) = Inr (tb', st') \<and>
                    calls st' = calls st @ [CorrectionCall sa sb (peak_time f) (verbose cfg)] \<and>
                    map_of (cols tb') (snd pair) = Some (align (time_index tb) corrected) \<and>
                    map_of (jedi_row st') (snd pair @ '' Correction Time Shift [s]'') =
                      Some seconds_shift \<and>
                    map_of (jedi_row st') (snd pair @ '' Correction Scale Factor'') =
                      Some scale_factor)"
    if "\<not> (all_null sa \<or> all_null sb)"
    using that a b
    by (auto simp: flare_removal_def info_if_verbose_fields set_fields_fields
        set_fields_Cons set_fields_Nil map_of_update_same map_of_update_other set_column_def
        split: sum.splits)
  show ?thesis
    using label skip go pair_label_distinct by (metis (no_types, lifting))
qed

theorem flare_removal_skip_iff_witness:
  "((''a'', ''b''), ''a by b'') \<in> set (zip (ion_tuples [''a'', ''b'', ''c''])
                                        (ion_permutations [''a'', ''b'', ''c''])) \<and>
   ((''a'', ''c''), ''a by c'') \<in> set (zip (ion_tuples [''a'', ''b'', ''c''])
                                        (ion_permutations [''a'', ''b'', ''c''])) \<and>
   column example_window ''a'' = Inr [(18000, Fin 1), (18060, Fin 2)] \<and>
   column example_window ''b'' = Inr [(18000, NaN), (18060, NaN)] \<and>
   column example_window ''c'' = Inr [(18000, NaN), (18060, Fin 3)] \<and>
   (\<exists>st'. flare_removal example_config example_ext (example_flares ! 1)
            ((''a'', ''b''), ''a by b'')
            (example_window, initial_state example_config example_row) = Inr (example_window, st') \<and>
          calls st' = []) \<and>
   (\<exists>tb' st'. flare_removal example_config example_ext (example_flares ! 1)
            ((''a'', ''c''), ''a by c'')
            (example_window, initial_state example_config example_row) = Inr (tb', st') \<and>
          map_of (cols tb') ''a by c'' = Some [Fin 1, Fin 2] \<and>
          map_of (jedi_row st') ''a by c Correction Time Shift [s]'' = Some (Number (Fin 0)) \<and>
          map_of (jedi_row st') ''a by c Correction Scale Factor'' = Some (Number (Fin 1)))"
proof -
  let ?labels = "[''a'', ''b'', ''c'']"
  let ?st = "initial_state example_config example_row"
  have ab: "((''a'', ''b''), ''a by b'') \<in> set (zip (ion_tuples ?labels) (ion_permutations ?labels))"
    by code_simp
  have ac: "((''a'', ''c''), ''a by c'') \<in> set (zip (ion_tuples ?labels) (ion_permutations ?labels))"
    by code_simp
  have a: "column example_window ''a'' = Inr [(18000, Fin 1), (18060, Fin 2)]"
    and b: "column example_window ''b'' = Inr [(18000, NaN), (18060, NaN)]"
    and c: "column example_window ''c'' = Inr [(18000, NaN), (18060, Fin 3)]"
    by (simp_all add: column_def example_window_def)
  have start: "calls ?st = []"
    by (simp add: initial_state_def)
  have skipped: "\<exists>st'. flare_removal example_config example_ext (example_flares ! 1)
            ((''a'', ''b''), ''a by b'') (example_window, ?st) = Inr (example_window, st') \<and>
          calls st' = []"
    using flare_removal_skip_iff [where pair = "((''a'', ''b''), ''a by b'')", simplified fst_conv snd_conv,
        OF ab a b, of example_config example_ext "example_flares ! 1" ?st]
    by (auto simp add: all_null_def start)
  have corrected: "\<exists>tb' st'. flare_removal example_config example_ext (example_flares ! 1)
            ((''a'', ''c''), ''a by c'') (example_window, ?st) = Inr (tb', st') \<and>
          map_of (cols tb') ''a by c'' = Some [Fin 1, Fin 2] \<and>
          map_of (jedi_row st') ''a by c Correction Time Shift [s]'' = Some (Number (Fin 0)) \<and>
          map_of (jedi_row st') ''a by c Correction Scale Factor'' = Some (Number (Fin 1))"
    using flare_removal_skip_iff [where pair = "((''a'', ''c''), ''a by c'')", simplified fst_conv snd_conv,
        OF ac a c, of example_config example_ext "example_flares ! 1" ?st]
    by (auto simp add: all_null_def example_ext_def align_def example_window_def)
  from ab ac a b c skipped corrected show ?thesis
    by blast
qed

subsection \<open>Percent units\<close>

text \<open>
  C9. With one pre-flare value per column, the conversion returns a table with the same
  time index, the same column names and the same column lengths; an entry with a finite
  value \<open>x\<close> and a finite non-zero pre-flare value \<open>y\<close> becomes \<open>(x - y) / y * 100\<close>, and
  an entry is NaN whenever its value or its pre-flare value is NaN. The conversion is a
  function of its two arguments and changes neither.
\<close>

theorem to_percent_elementwise:
  assumes len: "length bs = length (cols tb)"
  shows "\<exists>out. to_percent tb (Some bs) = Inr out \<and>
           time_index out = time_index tb \<and>
           map fst (cols out) = map fst (cols tb) \<and>
           map (length \<circ> snd) (cols out) = map (length \<circ> snd) (cols tb) \<and>
           (\<forall>j < length (cols tb). \<forall>k < length (snd (cols tb ! j)).
              (\<forall>x y. snd (cols tb ! j) ! k = Fin x \<and> bs ! j = Fin y \<and> y \<noteq> 0 \<longrightarrow>
                     snd (cols out ! j) ! k = Fin ((x - y) / y * 100)) \<and>
              (snd (cols tb ! j) ! k = NaN \<or> bs ! j = NaN \<longrightarrow> snd (cols out ! j) ! k = NaN))"
proof -
  define g where "g = (\<lambda>b v. fl_mul (fl_div (fl_sub v b) b) (Fin 100))"
  define out where
    "out = tb\<lparr>cols := map (\<lambda>((l, vs), b). (l, map (g b) vs)) (zip (cols tb) bs)\<rparr>"
  have run: "to_percent tb (Some bs) = Inr out"
    using len by (simp add: to_percent_def out_def g_def)
  have idx: "time_index out = time_index tb"
    by (simp add: out_def)
  have nth_out: "cols out ! j = (fst (cols tb ! j), map (g (bs ! j)) (snd (cols tb ! j)))"
    if "j < length (cols tb)" for j
    using that len by (simp add: out_def case_prod_unfold)
  have len_out: "length (cols out) = length (cols tb)"
    using len by (simp add: out_def)
  have names: "map fst (cols out) = map fst (cols tb)"
    using len_out nth_out by (intro nth_equalityI) simp_all
  have lens: "map (length \<circ> snd) (cols out) = map (length \<circ> snd) (cols tb)"
    using len_out nth_out by (intro nth_equalityI) simp_all
  have fin: "g (Fin y) (Fin x) = Fin ((x - y) / y * 100)" if "y \<noteq> 0" for x y
    using that by (simp add: g_def)
  have nan: "g b NaN = NaN" "g NaN v = NaN" for b v
    by (cases b; simp add: g_def) (cases v; simp add: g_def)
  have cells: "(\<forall>x y. snd (cols tb ! j) ! k = Fin x \<and> bs ! j = Fin y \<and> y \<noteq> 0 \<longrightarrow>
                     snd (cols out ! j) ! k = Fin ((x - y) / y * 100)) \<and>
              (snd (cols tb ! j) ! k = NaN \<or> bs ! j = NaN \<longrightarrow> snd (cols out ! j) ! k = NaN)"
    if "j < length (cols tb)" "k < length (snd (cols tb ! j))" for j k
    using that fin nan by (auto simp: nth_out)
  show ?thesis
    using run idx names lens cells by blast
qed

theorem to_percent_elementwise_witness:
  "length [Fin 2, NaN, Fin 4] = length (cols example_window) \<and>
   (\<exists>out. to_percent example_window (Some [Fin 2, NaN, Fin 4]) = Inr out \<and>
          time_index out = [18000, 18060] \<and>
          cols out = [(''a'', [Fin (- 50), Fin 0]), (''b'', [NaN, NaN]),
                      (''c'', [NaN, Fin (- 25)])])"
proof -
  have h: "length [Fin 2, NaN, Fin 4] = length (cols example_window)"
    by (simp add: example_window_def)
  obtain out where
    run: "to_percent example_window (Some [Fin 2, NaN, Fin 4]) = Inr out"
    and idx: "time_index out = time_index example_window"
    using to_percent_elementwise [OF h] by blast
  have "cols out = [(''a'', [Fin (- 50), Fin 0]), (''b'', [NaN, NaN]), (''c'', [NaN, Fin (- 25)])]"
    using run by (auto simp add: to_percent_def example_window_def)
  moreover have "time_index out = [18000, 18060]"
    using idx by (simp add: example_window_def)
  ultimately show ?thesis
    using h run by blast
qed

subsection \<open>The first flare after flare 0\<close>

text \<open>
  C10 (the code lets the first processed flare take the reuse branch with nothing to
  reuse). On three flares of which flare 1 peaks 30 minutes after flare 0, with
  \<^verbatim>\<open>verbose\<close> on and the other arguments at their defaults, the iteration for flare 1
  takes the \<^verbatim>\<open>else\<close> branch of line 219 before any recomputation: the hold-over is still
  the \<^verbatim>\<open>None\<close> of line 183, the window bounds have never been assigned, and the read of
  \<^verbatim>\<open>preflare_window_start\<close> at line 224 ends the run. No row is written for flare 1; the
  file holds the header and the empty row only.
\<close>

theorem first_flare_reuse_unbound:
  "preflare_irradiance (initial_state (default_config\<lparr>verbose := True\<rparr>) example_row) = None \<and>
   (peak_time (close_flares ! 1) - peak_time (close_flares ! 0)) / 60
     \<le> threshold_time_prior_flare_minutes (default_config\<lparr>verbose := True\<rparr>) \<and>
   process_flare (default_config\<lparr>verbose := True\<rparr>) example_ext example_eve_lines close_flares 1
     (initial_state (default_config\<lparr>verbose := True\<rparr>) example_row) =
     Inl (UnboundLocalError ''preflare_window_start'') \<and>
   generate_jedi_catalog (default_config\<lparr>verbose := True\<rparr>) example_ext example_eve_lines
     close_flares =
     (Some (UnboundLocalError ''preflare_window_start''),
      [Header (map fst example_row), Data (map snd example_row)])"
  by code_simp

subsection \<open>Further facts about the flare loop\<close>

lemma csv_simps:
  "csv (st\<lparr>calls := c\<rparr>) = csv st"
  "csv (st\<lparr>jedi_row := r\<rparr>) = csv st"
  "csv (st\<lparr>logger := m\<rparr>) = csv st"
  by simp_all

lemma preflare_column_csv:
  "preflare_column cfg ex f tb l acc = Inr acc' \<Longrightarrow> csv (snd acc') = csv (snd acc)"
  by (auto simp: preflare_column_def split: sum.splits)

lemma preflare_loop_csv:
  "for_each (preflare_column cfg ex f tb) ls acc = Inr acc' \<Longrightarrow> csv (snd acc') = csv (snd acc)"
proof (induction ls arbitrary: acc)
  case Nil
  then show ?case by simp
next
  case (Cons l ls)
  then obtain acc1 where
    step: "preflare_column cfg ex f tb l acc = Inr acc1"
    and rest: "for_each (preflare_column cfg ex f tb) ls acc1 = Inr acc'"
    by (auto split: sum.splits)
  from Cons.IH [OF rest] preflare_column_csv [OF step] show ?case
    by simp
qed

lemma flare_removal_csv:
  "flare_removal cfg ex f pair acc = Inr acc' \<Longrightarrow> csv (snd acc') = csv (snd acc)"
  by (auto simp: flare_removal_def info_if_verbose_fields set_fields_fields
      split: sum.splits if_splits)

lemma fit_column_csv:
  "fit_column cfg ex col acc = Inr acc' \<Longrightarrow> csv (snd acc') = csv (snd acc)"
  by (auto simp: fit_column_def info_if_verbose_fields set_fields_fields
      split: sum.splits if_splits)

lemma parameterize_column_csv:
  "parameterize_column cfg ex f tb col st = Inr st' \<Longrightarrow> csv st' = csv st"
  by (auto simp: parameterize_column_def info_if_verbose_fields set_fields_fields Let_def
      split: sum.splits if_splits)

lemma determine_preflare_csv:
  assumes "determine_preflare cfg ex eve_lines prev f st = Inr st1"
  shows "csv st1 = csv st"
proof (cases "(peak_time f - peak_time prev) / 60 > threshold_time_prior_flare_minutes cfg")
  case True
  let ?tb = "slice eve_lines (peak_time f - threshold_time_prior_flare_minutes cfg * 60) (peak_time f)"
  from assms True obtain vals st0 row where
    loop: "for_each (preflare_column cfg ex f ?tb) (map fst (cols ?tb)) ([], st) = Inr (vals, st0)"
    and st1: "st1 = info_if_verbose cfg ''pre-flare determination complete.''
               (st0\<lparr>preflare_irradiance := Some vals,
                    preflare_window_start :=
                      Some (peak_time f - threshold_time_prior_flare_minutes cfg * 60),
                    preflare_window_end := Some (peak_time f),
                    jedi_row := row\<rparr>)"
    unfolding determine_preflare_def Let_def
    by (auto split: sum.splits option.splits)
  have "csv st0 = csv st"
    using preflare_loop_csv [OF loop] by simp
  then show ?thesis
    by (simp add: st1 info_if_verbose_fields)
next
  case False
  with assms obtain st0 row where
    "info cfg ''This flare will use the pre-flare irradiance from the flare before.'' st = Inr st0"
    and "st1 = info_if_verbose cfg ''pre-flare determination complete.'' (st0\<lparr>jedi_row := row\<rparr>)"
    unfolding determine_preflare_def Let_def
    by (auto split: sum.splits option.splits)
  then show ?thesis
    by (auto simp: info_def info_if_verbose_fields split: if_splits)
qed

lemma dimming_window_csv:
  "dimming_window cfg flares i f st = Inr (l, r, st') \<Longrightarrow> csv st' = csv st"
  by (auto simp: dimming_window_def Let_def info_if_verbose_fields set_fields_fields
      split: sum.splits if_splits)

lemma dimming_parameters_csv:
  assumes "dimming_parameters cfg ex eve_lines f l r st = Inr st'"
  shows "\<exists>cells. csv st' = csv st @ [Data cells]"
proof -
  from assms obtain t tb corrected fitted st2 where
    c: "for_each (flare_removal cfg ex f)
       (zip (ion_tuples (map fst (cols eve_lines))) (ion_permutations (map fst (cols eve_lines))))
       (tb, info_if_verbose cfg ''irradiance converted from absolute to percent units.''
              (info_if_verbose cfg ''EVE data clipped to dimming window.'' st)) = Inr corrected"
    and f: "for_each (fit_column cfg ex) (map fst (cols (fst corrected))) corrected = Inr fitted"
    and p: "for_each (parameterize_column cfg ex f (fst fitted)) (map fst (cols (fst fitted)))
           (snd fitted) = Inr st2"
    and e: "st' = info_if_verbose cfg ''JEDI row written.'' (to_csv st2)"
    unfolding dimming_parameters_def
    by (auto split: timeval.splits sum.splits)
  have "csv (snd corrected) = csv st"
    using for_each_preserves [where p = "\<lambda>acc. csv (snd acc)", OF flare_removal_csv c]
    by (simp add: info_if_verbose_fields)
  moreover have "csv (snd fitted) = csv (snd corrected)"
    using for_each_preserves [where p = "\<lambda>acc. csv (snd acc)", OF fit_column_csv f] .
  moreover have "csv st2 = csv (snd fitted)"
    using for_each_preserves [where p = csv, OF parameterize_column_csv p] .
  ultimately show ?thesis
    by (simp add: e info_if_verbose_fields to_csv_def)
qed

lemma process_flare_csv:
  assumes "process_flare cfg ex eve_lines flares flare_index st = Inr st'"
  shows "\<exists>cells. csv st' = csv st @ [Data cells]"
proof -
  from assms obtain st1 l r st2 minutes where
    pre: "determine_preflare cfg ex eve_lines (flares ! (flare_index - 1)) (flares ! flare_index)
            (store_flare_details cfg (flares ! flare_index) st) = Inr st1"
    and win: "dimming_window cfg flares flare_index (flares ! flare_index) st1 = Inr (l, r, st2)"
    and rest: "if minutes < threshold_minimum_dimming_window_minutes cfg
     then st' = info_if_verbose cfg
                  ''The dimming window is shorter than the minimum threshold. Skipping this event''
                  (to_csv st2)
     else dimming_parameters cfg ex eve_lines (flares ! flare_index) l r st2 = Inr st'"
    by (rule process_flare_InrE)
  have "csv st1 = csv st"
    using determine_preflare_csv [OF pre]
    by (simp add: store_flare_details_def info_if_verbose_fields set_fields_fields)
  moreover have "csv st2 = csv st1"
    using dimming_window_csv [OF win] .
  moreover have "\<exists>cells. csv st' = csv st2 @ [Data cells]"
    using rest dimming_parameters_csv
    by (auto simp: info_if_verbose_fields to_csv_def split: if_splits)
  ultimately show ?thesis
    by simp
qed

text \<open>
  X1. An iteration of the flare loop that completes appends exactly one line to the file.
\<close>

theorem process_flare_appends_one_row:
  assumes "process_flare cfg ex eve_lines flares flare_index st = Inr st'"
  shows "\<exists>cells. csv st' = csv st @ [Data cells]"
  using assms by (rule process_flare_csv)

theorem process_flare_appends_one_row_witness:
  "\<exists>st' cells.
     process_flare example_config example_ext example_eve_lines example_flares 2
       state_after_flare_1 = Inr st' \<and>
     csv st' = csv state_after_flare_1 @ [Data cells]"
proof -
  have "case process_flare example_config example_ext example_eve_lines example_flares 2
               state_after_flare_1 of Inl e \<Rightarrow> False | Inr st' \<Rightarrow> True"
    by code_simp
  then obtain st' where
    run: "process_flare example_config example_ext example_eve_lines example_flares 2
            state_after_flare_1 = Inr st'"
    by (auto split: sum.splits)
  from process_flare_appends_one_row [OF run] run show ?thesis
    by blast
qed

text \<open>The iteration for a flare with no flare after it does not complete.\<close>

lemma process_flare_last:
  assumes "length flares \<le> flare_index + 1"
  shows "\<exists>e. process_flare cfg ex eve_lines flares flare_index st = Inl e"
proof (cases "process_flare cfg ex eve_lines flares flare_index st")
  case (Inl e)
  then show ?thesis by blast
next
  case (Inr st')
  then obtain st1 l r st2 where
    "dimming_window cfg flares flare_index (flares ! flare_index) st1 = Inr (l, r, st2)"
    by (rule process_flare_InrE)
  with assms show ?thesis
    by (simp add: dimming_window_def get_def Let_def)
qed

text \<open>
  X3. The iteration for a flare whose next flare peaks within the right offset does not
  complete: the right end of the window is then an ISO string, and line 248 raises.
\<close>

theorem interrupted_flare_raises:
  assumes nxt: "flare_index + 1 < length flares"
    and cut: "peak_time (flares ! (flare_index + 1)) \<le>
              peak_time (flares ! flare_index) +
              dimming_window_relative_to_flare_minutes_right cfg * 60"
  shows "\<exists>e. process_flare cfg ex eve_lines flares flare_index st = Inl e"
proof (cases "process_flare cfg ex eve_lines flares flare_index st")
  case (Inl e)
  then show ?thesis by blast
next
  case (Inr st')
  then obtain st1 l r st2 minutes where
    win: "dimming_window cfg flares flare_index (flares ! flare_index) st1 = Inr (l, r, st2)"
    and mins: "window_minutes r l = Inr minutes"
    by (rule process_flare_InrE)
  from win nxt cut have "r = IsoStr (peak_time (flares ! (flare_index + 1)))"
    by (auto simp: dimming_window_def get_def Let_def py_min_def)
  with mins show ?thesis
    by (simp add: window_minutes_def)
qed

theorem interrupted_flare_raises_witness:
  "(1::nat) + 1 < length example_flares \<and>
   peak_time (example_flares ! (1 + 1)) \<le>
     peak_time (example_flares ! 1) +
     dimming_window_relative_to_flare_minutes_right default_config * 60 \<and>
   process_flare default_config example_ext example_eve_lines example_flares 1
     (initial_state default_config example_row) = Inl TypeError"
proof -
  have nxt: "(1::nat) + 1 < length example_flares"
    by (simp add: example_flares_def)
  have cut: "peak_time (example_flares ! (1 + 1)) \<le>
     peak_time (example_flares ! 1) +
     dimming_window_relative_to_flare_minutes_right default_config * 60"
    by (simp add: example_flares_def default_config_def)
  have "case process_flare default_config example_ext example_eve_lines example_flares 1
               (initial_state default_config example_row) of
          Inl e \<Rightarrow> e = TypeError | Inr st' \<Rightarrow> True"
    by code_simp
  with interrupted_flare_raises [OF nxt cut, where ex = example_ext
      and eve_lines = example_eve_lines and st = "initial_state default_config example_row"]
  have "process_flare default_config example_ext example_eve_lines example_flares 1
     (initial_state default_config example_row) = Inl TypeError"
    by (auto split: sum.splits)
  with nxt cut show ?thesis
    by blast
qed

text \<open>How many lines the loop can add: one per index other than 0, and fewer when it raises.\<close>

lemma flare_loop_lines:
  "length (csv (snd (flare_loop cfg ex eve_lines flares is st)))
     \<le> length (csv st) + length (filter (\<lambda>i. i \<noteq> 0) is) \<and>
   (fst (flare_loop cfg ex eve_lines flares is st) \<noteq> None \<longrightarrow>
    length (csv (snd (flare_loop cfg ex eve_lines flares is st)))
      < length (csv st) + length (filter (\<lambda>i. i \<noteq> 0) is))"
proof (induction "is" arbitrary: st)
  case Nil
  then show ?case by simp
next
  case (Cons i "is")
  show ?case
  proof (cases "i = 0")
    case True
    with Cons.IH [of st] show ?thesis by simp
  next
    case False
    show ?thesis
    proof (cases "process_flare cfg ex eve_lines flares i st")
      case (Inl e)
      with False show ?thesis by simp
    next
      case (Inr st')
      then have "length (csv st') = Suc (length (csv st))"
        using process_flare_csv by fastforce
      with Cons.IH [of st'] False Inr show ?thesis by simp
    qed
  qed
qed

lemma length_filter_nonzero_upt: "length (filter (\<lambda>i. i \<noteq> 0) [0..<n]) = n - 1"
  by (induction n) auto

lemma flare_loop_raises:
  assumes "i \<in> set is" and "i \<noteq> 0"
    and "\<And>st. \<exists>e. process_flare cfg ex eve_lines flares i st = Inl e"
  shows "fst (flare_loop cfg ex eve_lines flares is st) \<noteq> None"
  using assms(1)
proof (induction "is" arbitrary: st)
  case Nil
  then show ?case by simp
next
  case (Cons j "is")
  show ?case
  proof (cases "j = 0")
    case True
    with Cons assms(2) show ?thesis by simp
  next
    case False
    show ?thesis
    proof (cases "process_flare cfg ex eve_lines flares j st")
      case (Inl e)
      with False show ?thesis by simp
    next
      case (Inr st')
      with assms(3) [of st] have "j \<noteq> i" by auto
      with Cons Inr False show ?thesis by simp
    qed
  qed
qed

text \<open>
  X2. A run over two or more flares ends with an exception, and the file then has at most as
  many lines as there are flares: the header, the empty row of line 172, and a row for at
  most all flares but the first and the last.
\<close>

theorem run_over_flares_raises:
  assumes "2 \<le> length flares"
  shows "fst (generate_jedi_catalog cfg ex eve_lines flares) \<noteq> None \<and>
         length (snd (generate_jedi_catalog cfg ex eve_lines flares)) \<le> length flares"
proof (cases "jedi_row_definition (map fst (cols eve_lines))")
  case (Inl e)
  then show ?thesis
    by (simp add: generate_jedi_catalog_def)
next
  case (Inr row)
  let ?st = "initial_state cfg row"
  let ?r = "flare_loop cfg ex eve_lines flares [0..<length flares] ?st"
  have last: "length flares - 1 \<in> set [0..<length flares]" "length flares - 1 \<noteq> 0"
    using assms by auto
  have "\<exists>e. process_flare cfg ex eve_lines flares (length flares - 1) st = Inl e" for st
    using assms by (intro process_flare_last) simp
  then have raised: "fst ?r \<noteq> None"
    using flare_loop_raises [OF last] by blast
  have "length (filter (\<lambda>i. i \<noteq> 0) [0..<length flares]) = length flares - 1"
    by (rule length_filter_nonzero_upt)
  moreover have "length (csv ?st) = 2"
    by (simp add: initial_state_def)
  ultimately have "length (csv (snd ?r)) < 2 + (length flares - 1)"
    using flare_loop_lines [of cfg ex eve_lines flares "[0..<length flares]" ?st] raised
    by simp
  with raised Inr assms show ?thesis
    by (simp add: generate_jedi_catalog_def Let_def)
qed

theorem run_over_flares_raises_witness:
  "2 \<le> length example_flares \<and>
   fst (generate_jedi_catalog example_config example_ext example_eve_lines example_flares)
     = Some IndexError \<and>
   length (snd (generate_jedi_catalog example_config example_ext example_eve_lines
                  example_flares)) = 4"
proof -
  have n: "2 \<le> length example_flares"
    by (simp add: example_flares_def)
  have "case fst (generate_jedi_catalog example_config example_ext example_eve_lines
                    example_flares) of None \<Rightarrow> True | Some e \<Rightarrow> e = IndexError"
    by code_simp
  with run_over_flares_raises [OF n, of example_config example_ext example_eve_lines]
  have "fst (generate_jedi_catalog example_config example_ext example_eve_lines example_flares)
          = Some IndexError"
    by (auto split: option.splits)
  moreover have "length (snd (generate_jedi_catalog example_config example_ext
                   example_eve_lines example_flares)) = 4"
    by code_simp
  ultimately show ?thesis
    using n by blast
qed

text \<open>
  X4. With \<^verbatim>\<open>verbose\<close> off, the iteration for a flare that peaks at most
  \<^verbatim>\<open>threshold_time_prior_flare_minutes\<close> after the flare before it ends at line 220.
\<close>

theorem reuse_needs_verbose:
  assumes off: "\<not> verbose cfg"
    and i: "flare_index < length flares"
    and gap: "(peak_time (flares ! flare_index) - peak_time (flares ! (flare_index - 1))) / 60
                \<le> threshold_time_prior_flare_minutes cfg"
  shows "process_flare cfg ex eve_lines flares flare_index st = Inl (UnboundLocalError ''logger'')"
proof -
  have i1: "flare_index - 1 < length flares"
    using i by simp
  have g: "get flares flare_index = Inr (flares ! flare_index)"
    "get flares (flare_index - 1) = Inr (flares ! (flare_index - 1))"
    using i i1 by (simp_all add: get_def del: One_nat_def)
  have "determine_preflare cfg ex eve_lines (flares ! (flare_index - 1)) (flares ! flare_index)
          (store_flare_details cfg (flares ! flare_index) st) = Inl (UnboundLocalError ''logger'')"
    using off gap by (simp add: determine_preflare_def info_def Let_def not_less)
  then show ?thesis
    unfolding process_flare_def g sum.case by (simp only: sum.case)
qed

theorem reuse_needs_verbose_witness:
  "\<not> verbose default_config \<and> (2::nat) < length example_flares \<and>
   (peak_time (example_flares ! 2) - peak_time (example_flares ! (2 - 1))) / 60
     \<le> threshold_time_prior_flare_minutes default_config \<and>
   process_flare default_config example_ext example_eve_lines example_flares 2
     state_after_flare_1 = Inl (UnboundLocalError ''logger'')"
proof -
  have off: "\<not> verbose default_config"
    by (simp add: default_config_def)
  have i: "(2::nat) < length example_flares"
    by (simp add: example_flares_def)
  have gap: "(peak_time (example_flares ! 2) - peak_time (example_flares ! (2 - 1))) / 60
     \<le> threshold_time_prior_flare_minutes default_config"
    by (simp add: example_flares_def default_config_def)
  from reuse_needs_verbose [OF off i gap] off i gap show ?thesis
    by blast
qed

text \<open>
  X5. A window that no next flare cuts has the length right offset plus left offset. When
  that is below the minimum, the flare is skipped (lines 247 to 258): the row is appended
  with \<^verbatim>\<open>Flare Interrupt\<close> false and otherwise as lines 195 to 227 left it, and no
  further routine is called.
\<close>

theorem uncut_short_window_is_skipped:
  assumes nxt: "flare_index + 1 < length flares"
    and pre: "determine_preflare cfg ex eve_lines (flares ! (flare_index - 1))
                (flares ! flare_index) (store_flare_details cfg (flares ! flare_index) st)
              = Inr st1"
    and uncut: "peak_time (flares ! flare_index) +
                dimming_window_relative_to_flare_minutes_right cfg * 60
                < peak_time (flares ! (flare_index + 1))"
    and short: "dimming_window_relative_to_flare_minutes_right cfg +
                dimming_window_relative_to_flare_minutes_left cfg
                < threshold_minimum_dimming_window_minutes cfg"
  shows "\<exists>st'. process_flare cfg ex eve_lines flares flare_index st = Inr st' \<and>
           jedi_row st' = AList.update ''Flare Interrupt'' (Flag False) (jedi_row st1) \<and>
           csv st' = csv st @ [Data (map snd (jedi_row st'))] \<and>
           calls st' = calls st1"
proof -
  let ?f = "flares ! flare_index"
  let ?l = "peak_time ?f - dimming_window_relative_to_flare_minutes_left cfg * 60"
  let ?r = "TimeObj (peak_time ?f + dimming_window_relative_to_flare_minutes_right cfg * 60)"
  let ?st2 = "set_fields [(''Flare Interrupt'', Flag False)] st1"
  have i: "flare_index < length flares" "flare_index - 1 < length flares"
    using nxt by simp_all
  have g: "get flares flare_index = Inr ?f"
    "get flares (flare_index - 1) = Inr (flares ! (flare_index - 1))"
    using i by (simp_all add: get_def del: One_nat_def)
  have win: "dimming_window cfg flares flare_index ?f st1 = Inr (?l, ?r, ?st2)"
    using nxt uncut by (simp add: dimming_window_def get_def Let_def py_min_def py_eq_def)
  have mins: "window_minutes ?r ?l =
                Inr (dimming_window_relative_to_flare_minutes_right cfg +
                     dimming_window_relative_to_flare_minutes_left cfg)"
    by (simp add: window_minutes_def field_simps)
  have run: "process_flare cfg ex eve_lines flares flare_index st =
               Inr (info_if_verbose cfg
                      ''The dimming window is shorter than the minimum threshold. Skipping this event''
                      (to_csv ?st2))"
    unfolding process_flare_def g sum.case pre win prod.case mins
    using short by simp
  have "csv st1 = csv st"
    using determine_preflare_csv [OF pre]
    by (simp add: store_flare_details_def info_if_verbose_fields set_fields_fields)
  then show ?thesis
    unfolding run
    by (simp add: info_if_verbose_fields to_csv_def set_fields_fields set_fields_Cons
        set_fields_Nil)
qed

theorem uncut_short_window_is_skipped_witness:
  "\<exists>st1 st'.
     determine_preflare (example_config\<lparr>threshold_minimum_dimming_window_minutes := 120\<rparr>)
       example_ext example_eve_lines (example_flares ! (1 - 1)) (example_flares ! 1)
       (store_flare_details (example_config\<lparr>threshold_minimum_dimming_window_minutes := 120\<rparr>)
          (example_flares ! 1)
          (initial_state (example_config\<lparr>threshold_minimum_dimming_window_minutes := 120\<rparr>)
             example_row)) = Inr st1 \<and>
     process_flare (example_config\<lparr>threshold_minimum_dimming_window_minutes := 120\<rparr>)
       example_ext example_eve_lines example_flares 1
       (initial_state (example_config\<lparr>threshold_minimum_dimming_window_minutes := 120\<rparr>)
          example_row) = Inr st' \<and>
     calls st' = calls st1 \<and> length (csv st') = 3"
proof -
  let ?cfg = "example_config\<lparr>threshold_minimum_dimming_window_minutes := 120\<rparr>"
  let ?st = "initial_state ?cfg example_row"
  have nxt: "(1::nat) + 1 < length example_flares"
    by (simp add: example_flares_def)
  have "case determine_preflare ?cfg example_ext example_eve_lines (example_flares ! (1 - 1))
               (example_flares ! 1) (store_flare_details ?cfg (example_flares ! 1) ?st) of
          Inl e \<Rightarrow> False | Inr st1 \<Rightarrow> True"
    by code_simp
  then obtain st1 where
    pre: "determine_preflare ?cfg example_ext example_eve_lines (example_flares ! (1 - 1))
            (example_flares ! 1) (store_flare_details ?cfg (example_flares ! 1) ?st) = Inr st1"
    by (auto split: sum.splits)
  have uncut: "peak_time (example_flares ! 1) +
                dimming_window_relative_to_flare_minutes_right ?cfg * 60
                < peak_time (example_flares ! (1 + 1))"
    by (simp add: example_flares_def example_config_def)
  have short: "dimming_window_relative_to_flare_minutes_right ?cfg +
                dimming_window_relative_to_flare_minutes_left ?cfg
                < threshold_minimum_dimming_window_minutes ?cfg"
    by (simp add: example_config_def)
  have two: "length (csv ?st) = 2"
    by (simp add: initial_state_def)
  from uncut_short_window_is_skipped [OF nxt pre uncut short]
  obtain st' where
    "process_flare ?cfg example_ext example_eve_lines example_flares 1 ?st = Inr st'"
    "csv st' = csv ?st @ [Data (map snd (jedi_row st'))]"
    "calls st' = calls st1"
    by blast
  with pre two show ?thesis
    by (intro exI [of _ st1] exI [of _ st']) simp
qed

text \<open>
  X6. When an iteration of the flare loop completes for a flare whose peak is at most
  \<^verbatim>\<open>threshold_time_prior_flare_minutes\<close> after the peak of the flare before (which needs
  \<^verbatim>\<open>verbose\<close> on), the pre-flare irradiance in use after lines 202 to 227 is the one the
  iteration found in the state, and the iteration leaves it and the two window bounds as
  they were.
\<close>

theorem baseline_reused_within_threshold:
  assumes run: "process_flare cfg ex eve_lines flares flare_index st = Inr st'"
    and gap: "(peak_time (flares ! flare_index) - peak_time (flares ! (flare_index - 1))) / 60
                \<le> threshold_time_prior_flare_minutes cfg"
  shows "\<exists>st1. determine_preflare cfg ex eve_lines (flares ! (flare_index - 1))
                 (flares ! flare_index) (store_flare_details cfg (flares ! flare_index) st) = Inr st1 \<and>
               preflare_irradiance st1 = preflare_irradiance st \<and>
               preflare_irradiance st' = preflare_irradiance st \<and>
               preflare_window_start st' = preflare_window_start st \<and>
               preflare_window_end st' = preflare_window_end st"
proof -
  let ?f = "flares ! flare_index" and ?prev = "flares ! (flare_index - 1)"
  from run obtain st1 l r st2 minutes where
    pre: "determine_preflare cfg ex eve_lines ?prev ?f (store_flare_details cfg ?f st) = Inr st1"
    and win: "dimming_window cfg flares flare_index ?f st1 = Inr (l, r, st2)"
    and rest: "if minutes < threshold_minimum_dimming_window_minutes cfg
     then st' = info_if_verbose cfg
                  ''The dimming window is shorter than the minimum threshold. Skipping this event''
                  (to_csv st2)
     else dimming_parameters cfg ex eve_lines ?f l r st2 = Inr st'"
    by (rule process_flare_InrE)
  have "hold_over st1 = hold_over (store_flare_details cfg ?f st)"
    using determine_preflare_reuse [OF pre gap] by simp
  then have h1: "hold_over st1 = hold_over st"
    by (simp add: store_flare_details_def hold_over_simps)
  have h2: "hold_over st2 = hold_over st1"
    using dimming_window_hold_over [OF win] .
  have h3: "hold_over st' = hold_over st2"
    using rest dimming_parameters_hold_over by (auto simp: hold_over_simps split: if_splits)
  show ?thesis
    using pre h1 h2 h3 by (simp add: hold_over_def)
qed

theorem baseline_reused_within_threshold_witness:
  "\<exists>st'. process_flare example_config example_ext example_eve_lines example_flares 2
            state_after_flare_1 = Inr st' \<and>
         (peak_time (example_flares ! 2) - peak_time (example_flares ! (2 - 1))) / 60
           \<le> threshold_time_prior_flare_minutes example_config \<and>
         preflare_irradiance state_after_flare_1 = Some [Fin 2] \<and>
         preflare_irradiance st' = Some [Fin 2]"
proof -
  have "case process_flare example_config example_ext example_eve_lines example_flares 2
               state_after_flare_1 of Inl e \<Rightarrow> False | Inr st' \<Rightarrow> True"
    by code_simp
  then obtain st' where
    run: "process_flare example_config example_ext example_eve_lines example_flares 2
            state_after_flare_1 = Inr st'"
    by (auto split: sum.splits)
  have gap: "(peak_time (example_flares ! 2) - peak_time (example_flares ! (2 - 1))) / 60
               \<le> threshold_time_prior_flare_minutes example_config"
    by (simp add: example_flares_def example_config_def)
  have before: "preflare_irradiance state_after_flare_1 = Some [Fin 2]"
    by code_simp
  from baseline_reused_within_threshold [OF run gap]
  have "preflare_irradiance st' = preflare_irradiance state_after_flare_1"
    by blast
  with run gap before show ?thesis
    by simp
qed

lemma determine_preflare_unbound:
  assumes "preflare_window_start st = None"
    and "(peak_time f - peak_time prev) / 60 \<le> threshold_time_prior_flare_minutes cfg"
  shows "determine_preflare cfg ex eve_lines prev f st =
           Inl (UnboundLocalError (if verbose cfg then ''preflare_window_start'' else ''logger''))"
  using assms by (simp add: determine_preflare_def info_def Let_def not_less)

text \<open>
  X7. When flare 1 peaks at most \<^verbatim>\<open>threshold_time_prior_flare_minutes\<close> after flare 0,
  the run ends in the iteration for flare 1 with an UnboundLocalError, for
  \<^verbatim>\<open>preflare_window_start\<close> when \<^verbatim>\<open>verbose\<close> is on and for \<^verbatim>\<open>logger\<close> when it is off,
  and the file holds the header and the empty row only. In any iteration, the branch that
  keeps the pre-flare irradiance of the flare before returns only when \<^verbatim>\<open>verbose\<close> is on
  and the two window bounds are bound.
\<close>

theorem first_flare_reuse_raises:
  assumes row: "jedi_row_definition (map fst (cols eve_lines)) = Inr row"
    and n: "2 \<le> length flares"
    and gap: "(peak_time (flares ! 1) - peak_time (flares ! 0)) / 60
                \<le> threshold_time_prior_flare_minutes cfg"
  shows "generate_jedi_catalog cfg ex eve_lines flares =
           (Some (UnboundLocalError (if verbose cfg then ''preflare_window_start'' else ''logger'')),
            [Header (map fst row), Data (map snd row)]) \<and>
         (\<forall>prev f st st1.
            determine_preflare cfg ex eve_lines prev f st = Inr st1 \<and>
            (peak_time f - peak_time prev) / 60 \<le> threshold_time_prior_flare_minutes cfg \<longrightarrow>
            verbose cfg \<and> preflare_window_start st \<noteq> None \<and> preflare_window_end st \<noteq> None)"
proof -
  let ?st = "initial_state cfg row"
  let ?e = "UnboundLocalError (if verbose cfg then ''preflare_window_start'' else ''logger'')"
  have lt: "0 < length flares" "Suc 0 < length flares"
    using n by linarith+
  then have range: "[0..<length flares] = 0 # 1 # [2..<length flares]"
    by (simp add: upt_conv_Cons numeral_2_eq_2)
  have g: "get flares 1 = Inr (flares ! 1)" "get flares (1 - 1) = Inr (flares ! 0)"
    using lt by (simp_all add: get_def)
  have unbound: "preflare_window_start (store_flare_details cfg (flares ! 1) ?st) = None"
    by (simp add: store_flare_details_def info_if_verbose_fields set_fields_fields
        initial_state_def)
  have "process_flare cfg ex eve_lines flares 1 ?st = Inl ?e"
    unfolding process_flare_def g sum.case
    by (simp only: determine_preflare_unbound [OF unbound gap] sum.case)
  then have "flare_loop cfg ex eve_lines flares [0..<length flares] ?st = (Some ?e, ?st)"
    by (simp add: range)
  then have run: "generate_jedi_catalog cfg ex eve_lines flares =
                    (Some ?e, [Header (map fst row), Data (map snd row)])"
    by (simp add: generate_jedi_catalog_def row initial_state_def)
  have reuse: "verbose cfg \<and> preflare_window_start st \<noteq> None \<and> preflare_window_end st \<noteq> None"
    if "determine_preflare cfg ex eve_lines prev f st = Inr st1"
      and "(peak_time f - peak_time prev) / 60 \<le> threshold_time_prior_flare_minutes cfg"
    for prev f st st1
    using determine_preflare_reuse [OF that] by simp
  show ?thesis
    using run reuse by blast
qed

theorem first_flare_reuse_raises_witness:
  "jedi_row_definition (map fst (cols example_eve_lines)) = Inr example_row \<and>
   2 \<le> length close_flares \<and>
   (peak_time (close_flares ! 1) - peak_time (close_flares ! 0)) / 60
     \<le> threshold_time_prior_flare_minutes default_config \<and>
   generate_jedi_catalog default_config example_ext example_eve_lines close_flares =
     (Some (UnboundLocalError ''logger''),
      [Header (map fst example_row), Data (map snd example_row)])"
proof -
  have row: "jedi_row_definition (map fst (cols example_eve_lines)) = Inr example_row"
    by code_simp
  have n: "2 \<le> length close_flares"
    by (simp add: close_flares_def)
  have gap: "(peak_time (close_flares ! 1) - peak_time (close_flares ! 0)) / 60
               \<le> threshold_time_prior_flare_minutes default_config"
    by (simp add: close_flares_def default_config_def)
  have off: "\<not> verbose default_config"
    by (simp add: default_config_def)
  from first_flare_reuse_raises [OF row n gap, of example_ext]
  have "generate_jedi_catalog default_config example_ext example_eve_lines close_flares =
     (Some (UnboundLocalError ''logger''),
      [Header (map fst example_row), Data (map snd example_row)])"
    using off by simp
  with row n gap show ?thesis
    by blast
qed

end
